theory Spec2Isabelle
  imports Complex_Main "HOL-Library.Sublist"
begin

section \<open>threeML analysis results: the escaping codec\<close>

text \<open>
  Source: \<^verbatim>\<open>src/threeML/analysis_results.py\<close>, lines 25--45. The strings are
  Python 2 byte strings, modelled as \<^typ>\<open>string\<close>.
\<close>

subsection \<open>Python's \<^verbatim>\<open>str.replace\<close>\<close>

text \<open>
  \<^verbatim>\<open>s.replace(old, new)\<close> scans \<^verbatim>\<open>s\<close> from the left and substitutes every
  non-overlapping occurrence of \<^verbatim>\<open>old\<close>. With an empty \<^verbatim>\<open>old\<close> it puts
  \<^verbatim>\<open>new\<close> before every character and at the end.
\<close>

function replace :: "string \<Rightarrow> string \<Rightarrow> string \<Rightarrow> string" where
  "replace old new s =
     (if old = [] then new @ concat (map (\<lambda>c. c # new) s)
      else if s = [] then []
      else if prefix old s then new @ replace old new (drop (length old) s)
      else hd s # replace old new (tl s))"
  by pat_completeness auto
termination
  by (relation "measure (\<lambda>(old, new, s). length s)") auto

declare replace.simps [simp del]

subsection \<open>The substitution table and the two codec functions\<close>

definition newline :: char where "newline = CHR 0x0A"
definition quote1 :: char where "quote1 = CHR 0x27"
definition quote2 :: char where "quote2 = CHR 0x22"
definition paro :: char where "paro = CHR ''{''"
definition parc :: char where "parc = CHR ''}''"

definition subs :: "(string \<times> string) list" where
  "subs = [([newline], ''_NEWLINE_''), ([quote1], ''_QUOTE1_''), ([quote2], ''_QUOTE2_''),
           ([paro], ''_PARO_''), ([parc], ''_PARC_'')]"

text \<open>
  \<^verbatim>\<open>for sub in _subs: yaml_code = yaml_code.replace(sub[0], sub[1])\<close>
\<close>

definition escape_yaml_for_fits :: "string \<Rightarrow> string" where
  "escape_yaml_for_fits yaml_code = fold (\<lambda>sub y. replace (fst sub) (snd sub) y) subs yaml_code"

text \<open>
  \<^verbatim>\<open>for sub in _subs: yaml_code = yaml_code.replace(sub[1], sub[0])\<close>: the same
  loop over the same table, each pair used the other way round.
\<close>

definition escape_back_yaml_from_fits :: "string \<Rightarrow> string" where
  "escape_back_yaml_from_fits yaml_code = fold (\<lambda>sub y. replace (snd sub) (fst sub) y) subs yaml_code"

text \<open>The reserved placeholder tokens, and the test that a text holds none of them.\<close>

definition tokens :: "string list" where
  "tokens = map snd subs"

definition token_free :: "string \<Rightarrow> bool" where
  "token_free x = list_all (\<lambda>t. \<not> sublist t x) tokens"


text \<open>
  A collision is a token body standing between two delimiters, a delimiter being the
  underscore or one of the five substituted characters. The reserved tokens are the
  collisions whose two delimiters are underscores. \<^verbatim>\<open>p in x\<close> is \<^term>\<open>sublist p x\<close>.
\<close>

definition delimiters :: "char list" where
  "delimiters = [CHR ''_'', newline, quote1, quote2, paro, parc]"

definition bodies :: "string list" where
  "bodies = [''NEWLINE'', ''QUOTE1'', ''QUOTE2'', ''PARO'', ''PARC'']"

definition collisions :: "string list" where
  "collisions =
     concat (map (\<lambda>d. concat (map (\<lambda>w. map (\<lambda>e. d # w @ [e]) delimiters) bodies)) delimiters)"

definition collision_free :: "string \<Rightarrow> bool" where
  "collision_free x = list_all (\<lambda>p. \<not> sublist p x) collisions"

subsection \<open>Escaping, character by character\<close>

text \<open>
  Proof devices: the text in which the characters of a table \<open>S\<close> stand encoded and
  all others stand for themselves.
\<close>

definition enc :: "(string \<times> string) list \<Rightarrow> char \<Rightarrow> string" where
  "enc S c = (case map_of S [c] of Some t \<Rightarrow> t | None \<Rightarrow> [c])"

definition encode :: "(string \<times> string) list \<Rightarrow> string \<Rightarrow> string" where
  "encode S x = concat (map (enc S) x)"

definition subs2 :: "(string \<times> string) list" where "subs2 = drop 1 subs"
definition subs3 :: "(string \<times> string) list" where "subs3 = drop 2 subs"
definition subs4 :: "(string \<times> string) list" where "subs4 = drop 3 subs"
definition subs5 :: "(string \<times> string) list" where "subs5 = drop 4 subs"

fun cf :: "string \<Rightarrow> bool" where
  "cf [] = True"
| "cf (a # xs) = ((a \<in> set delimiters \<longrightarrow>
      (\<forall>w \<in> set bodies. \<forall>e \<in> set delimiters. \<not> prefix (w @ [e]) xs)) \<and> cf xs)"

lemmas char_defs = newline_def quote1_def quote2_def paro_def parc_def

lemmas subs_defs = subs2_def subs3_def subs4_def subs5_def subs_def

lemma replace_Nil: "replace old new [] = (if old = [] then new else [])"
  by (simp add: replace.simps)

lemma replace_Cons:
  "old \<noteq> [] \<Longrightarrow> replace old new (c # s) =
     (if prefix old (c # s) then new @ replace old new (drop (length old) (c # s))
      else c # replace old new s)"
  by (subst replace.simps) simp

lemma replace_single:
  "replace [c] t s = concat (map (\<lambda>d. if d = c then t else [d]) s)"
  by (induction s) (auto simp: replace_Nil replace_Cons)

lemma concat_map_concat_map:
  "concat (map g (concat (map f x))) = concat (map (\<lambda>d. concat (map g (f d))) x)"
  by (induction x) simp_all

lemma escape_encode: "escape_yaml_for_fits x = encode subs x"
  unfolding escape_yaml_for_fits_def encode_def subs_def
  apply (simp add: replace_single concat_map_concat_map)
  apply (rule arg_cong [where f = concat])
  apply (rule map_cong [OF refl])
  apply (simp add: enc_def char_defs)
  done

lemma encode_Nil_table: "encode [] x = x"
  by (induction x) (simp_all add: encode_def enc_def)

subsection \<open>Unescaping, one token after the other\<close>

text \<open>
  A token body followed by an underscore in the encoded text comes from the same body
  followed by a delimiter in the text itself.
\<close>

lemma lookahead:
  assumes f: "\<And>c. f c = [c] \<or> (c \<in> set delimiters \<and> (\<exists>r. f c = CHR ''_'' # r))"
    and w: "CHR ''_'' \<notin> set w"
    and p: "prefix (w @ ''_'') (concat (map f xs))"
  shows "\<exists>e \<in> set delimiters. prefix (w @ [e]) xs"
  using w p
proof (induction w arbitrary: xs)
  case Nil
  then obtain c xs' where xs: "xs = c # xs'" by (cases xs) auto
  from f [of c] Nil xs show ?case by (auto simp: delimiters_def)
next
  case (Cons a w)
  then obtain c xs' where xs: "xs = c # xs'" by (cases xs) auto
  from f [of c] Cons.prems xs have "c = a" and "prefix (w @ ''_'') (concat (map f xs'))"
    by auto
  with Cons.IH [of xs'] Cons.prems xs show ?case by auto
qed

lemma collision_free_Cons:
  "collision_free (a # xs) \<Longrightarrow> collision_free xs"
  by (simp add: collision_free_def list_all_iff sublist_Cons_right)

lemma collision_free_head:
  assumes "collision_free (a # xs)" "a \<in> set delimiters" "w \<in> set bodies" "e \<in> set delimiters"
  shows "\<not> prefix (w @ [e]) xs"
proof -
  have "a # w @ [e] \<in> set collisions"
    using assms(2-4) unfolding collisions_def by auto
  with assms(1) have "\<not> sublist (a # w @ [e]) (a # xs)"
    by (simp add: collision_free_def list_all_iff)
  then show ?thesis by (auto simp: sublist_Cons_right)
qed

lemma collision_free_cf: "collision_free x \<Longrightarrow> cf x"
  by (induction x) (auto dest: collision_free_Cons collision_free_head)

lemma collision_free_token_free: "collision_free x \<Longrightarrow> token_free x"
  by (simp add: collision_free_def token_free_def list_all_iff collisions_def tokens_def
      subs_def delimiters_def bodies_def)

lemma enc_shape:
  "set S \<subseteq> set subs \<Longrightarrow>
   enc S c = [c] \<or> (c \<in> set delimiters \<and> (\<exists>r. enc S c = CHR ''_'' # r))"
  by (auto simp: enc_def subs_def delimiters_def split: option.splits dest!: map_of_SomeD)

lemma bodies_no_underscore: "w \<in> set bodies \<Longrightarrow> CHR ''_'' \<notin> set w"
  by (auto simp: bodies_def)

text \<open>
  One pass of \<^const>\<open>replace\<close> over an encoded text, given what it does at the head
  of the text.
\<close>

lemma stage:
  assumes S: "set S \<subseteq> set subs"
    and w: "w \<in> set bodies"
    and T: "T \<noteq> []"
    and step: "\<And>a rest. (a \<in> set delimiters \<Longrightarrow> \<not> prefix (w @ ''_'') rest) \<Longrightarrow>
        replace T new (enc S a @ rest) = enc S' a @ replace T new rest"
    and x: "cf x"
  shows "replace T new (encode S x) = encode S' x"
  using x
proof (induction x)
  case Nil
  with T show ?case by (simp add: encode_def replace_Nil)
next
  case (Cons a xs)
  have "\<not> prefix (w @ ''_'') (encode S xs)" if a: "a \<in> set delimiters"
  proof
    assume "prefix (w @ ''_'') (encode S xs)"
    then have "\<exists>e \<in> set delimiters. prefix (w @ [e]) xs"
      unfolding encode_def
      by (intro lookahead [where f = "enc S"] enc_shape [OF S] bodies_no_underscore [OF w])
    with Cons.prems a w show False by auto
  qed
  then have "replace T new (enc S a @ encode S xs) = enc S' a @ replace T new (encode S xs)"
    by (rule step)
  with Cons show ?case by (simp add: encode_def)
qed

lemma step1:
  assumes "a \<in> set delimiters \<Longrightarrow> \<not> prefix (''NEWLINE'' @ ''_'') rest"
  shows "replace ''_NEWLINE_'' [newline] (enc subs a @ rest)
       = enc subs2 a @ replace ''_NEWLINE_'' [newline] rest"
  using assms by (auto simp: enc_def subs_defs delimiters_def replace_Cons char_defs)

lemma step2:
  assumes "a \<in> set delimiters \<Longrightarrow> \<not> prefix (''QUOTE1'' @ ''_'') rest"
  shows "replace ''_QUOTE1_'' [quote1] (enc subs2 a @ rest)
       = enc subs3 a @ replace ''_QUOTE1_'' [quote1] rest"
  using assms by (auto simp: enc_def subs_defs delimiters_def replace_Cons char_defs)

lemma step3:
  assumes "a \<in> set delimiters \<Longrightarrow> \<not> prefix (''QUOTE2'' @ ''_'') rest"
  shows "replace ''_QUOTE2_'' [quote2] (enc subs3 a @ rest)
       = enc subs4 a @ replace ''_QUOTE2_'' [quote2] rest"
  using assms by (auto simp: enc_def subs_defs delimiters_def replace_Cons char_defs)

lemma step4:
  assumes "a \<in> set delimiters \<Longrightarrow> \<not> prefix (''PARO'' @ ''_'') rest"
  shows "replace ''_PARO_'' [paro] (enc subs4 a @ rest)
       = enc subs5 a @ replace ''_PARO_'' [paro] rest"
  using assms by (auto simp: enc_def subs_defs delimiters_def replace_Cons char_defs)

lemma step5:
  assumes "a \<in> set delimiters \<Longrightarrow> \<not> prefix (''PARC'' @ ''_'') rest"
  shows "replace ''_PARC_'' [parc] (enc subs5 a @ rest)
       = enc [] a @ replace ''_PARC_'' [parc] rest"
  using assms by (auto simp: enc_def subs_defs delimiters_def replace_Cons char_defs)

text \<open>The order of the passes of the decoder: the newline token first, as in the encoder.\<close>

lemma escape_back_order:
  "escape_back_yaml_from_fits y
     = replace ''_PARC_'' [parc] (replace ''_PARO_'' [paro] (replace ''_QUOTE2_'' [quote2]
         (replace ''_QUOTE1_'' [quote1] (replace ''_NEWLINE_'' [newline] y))))"
  by (simp add: escape_back_yaml_from_fits_def subs_def)

lemma unescape_encode:
  assumes "cf x"
  shows "escape_back_yaml_from_fits (encode subs x) = x"
proof -
  have 1: "replace ''_NEWLINE_'' [newline] (encode subs x) = encode subs2 x"
    by (rule stage [where w = "''NEWLINE''", OF _ _ _ step1 assms]) (simp_all add: bodies_def)
  have 2: "replace ''_QUOTE1_'' [quote1] (encode subs2 x) = encode subs3 x"
    by (rule stage [where w = "''QUOTE1''", OF _ _ _ step2 assms])
      (simp_all add: bodies_def subs_defs)
  have 3: "replace ''_QUOTE2_'' [quote2] (encode subs3 x) = encode subs4 x"
    by (rule stage [where w = "''QUOTE2''", OF _ _ _ step3 assms])
      (simp_all add: bodies_def subs_defs)
  have 4: "replace ''_PARO_'' [paro] (encode subs4 x) = encode subs5 x"
    by (rule stage [where w = "''PARO''", OF _ _ _ step4 assms])
      (simp_all add: bodies_def subs_defs)
  have 5: "replace ''_PARC_'' [parc] (encode subs5 x) = encode [] x"
    by (rule stage [where w = "''PARC''", OF _ _ _ step5 assms])
      (simp_all add: bodies_def subs_defs)
  show ?thesis by (simp add: escape_back_order 1 2 3 4 5 encode_Nil_table)
qed

text \<open>
  Claim C2, as amended. For every text in which no token body (NEWLINE, QUOTE1, QUOTE2,
  PARO, PARC) stands between two delimiters (underscore, newline, single quote, double
  quote, open brace, close brace), which rules out the reserved tokens too, escaping and
  then unescaping gives the text back. The decoder runs over the table in the same
  order as the encoder (\<open>escape_back_order\<close>), each pair turned round.
\<close>

theorem escape_roundtrip:
  assumes "collision_free x"
  shows "token_free x \<and> escape_back_yaml_from_fits (escape_yaml_for_fits x) = x"
  using assms
  by (simp add: escape_encode unescape_encode collision_free_cf collision_free_token_free)

text \<open>A multi-line text with both quotes, braces and an underscore.\<close>

definition sample_yaml :: string where
  "sample_yaml = ''a: '' @ [paro] @ ''b: '' @ [quote1] @ ''x'' @ [quote1] @ '', c_1: ''
     @ [quote2] @ ''y'' @ [quote2, parc, newline] @ ''z_NEWLINE: 1'' @ [newline]"

theorem escape_roundtrip_witness:
  "collision_free sample_yaml \<and> token_free sample_yaml
   \<and> escape_back_yaml_from_fits (escape_yaml_for_fits sample_yaml) = sample_yaml"
proof -
  have h: "collision_free sample_yaml" by code_simp
  show ?thesis using h escape_roundtrip [OF h] by simp
qed

text \<open>
  The claim as stated fails: the text \<^verbatim>\<open>_NEWLINE{\<close> holds none of the reserved tokens,
  its escaped form \<^verbatim>\<open>_NEWLINE_PARO_\<close> starts with one, and the decoder returns a newline
  followed by \<^verbatim>\<open>PARO_\<close>.
\<close>

theorem escape_roundtrip_counterexample:
  "token_free (''_NEWLINE'' @ [paro])
   \<and> escape_yaml_for_fits (''_NEWLINE'' @ [paro]) = ''_NEWLINE_PARO_''
   \<and> escape_back_yaml_from_fits (escape_yaml_for_fits (''_NEWLINE'' @ [paro])) = newline # ''PARO_''
   \<and> escape_back_yaml_from_fits (escape_yaml_for_fits (''_NEWLINE'' @ [paro])) \<noteq> ''_NEWLINE'' @ [paro]"
  by code_simp


section \<open>Numbers, arrays and the fitted model\<close>

subsection \<open>Floating-point values\<close>

text \<open>
  A Python or numpy float is a 64-bit IEEE number: a real number that the format holds,
  an infinity or not-a-number. An operation returns the exact result rounded to the
  nearest number of the format (53 bits of precision, the exponents from -1022 to 1023,
  a tie to the even neighbour): an infinity past the largest number (overflow), zero up
  to half of the smallest one (underflow). The sign of zero is not modelled.
\<close>

datatype pyfloat = Fin real | PInf | NInf | NaN

text \<open>The nearest integer, the even one of two that are equally near.\<close>

definition round_half_even :: "real \<Rightarrow> int" where
  "round_half_even q =
     (let f = \<lfloor>q\<rfloor>
      in if q - of_int f < 1 / 2 then f
         else if 1 / 2 < q - of_int f then f + 1
         else if even f then f else f + 1)"

text \<open>
  The exponent of the numbers of the format around \<open>x\<close>; the subnormal numbers have
  the least exponent of the normal ones.
\<close>

definition float64_exponent :: "real \<Rightarrow> int" where
  "float64_exponent x = max \<lfloor>log 2 \<bar>x\<bar>\<rfloor> (- 1022)"

text \<open>
  The float for the real number \<open>x\<close>: the nearest multiple of the unit in the last
  place, or an infinity when that is \<open>2 ^ 1024\<close> or more.
\<close>

definition round64 :: "real \<Rightarrow> pyfloat" where
  "round64 x =
     (let ulp = 2 powi (float64_exponent x - 52);
          y = of_int (round_half_even (x / ulp)) * ulp
      in if 2 ^ 1024 \<le> \<bar>y\<bar> then (if 0 < x then PInf else NInf) else Fin y)"

text \<open>The values that are floats: the real numbers that rounding leaves as they are.\<close>

definition float64 :: "pyfloat \<Rightarrow> bool" where
  "float64 v = (case v of Fin x \<Rightarrow> round64 x = Fin x | _ \<Rightarrow> True)"

definition isfinite :: "pyfloat \<Rightarrow> bool" where
  "isfinite x = (case x of Fin _ \<Rightarrow> True | _ \<Rightarrow> False)"

definition isnan :: "pyfloat \<Rightarrow> bool" where
  "isnan x = (x = NaN)"

text \<open>\<^verbatim>\<open>a > b\<close> and \<^verbatim>\<open>a < b\<close>: every comparison with not-a-number is false.\<close>

fun fgt :: "pyfloat \<Rightarrow> pyfloat \<Rightarrow> bool" where
  "fgt NaN b = False"
| "fgt a NaN = False"
| "fgt (Fin a) (Fin b) = (a > b)"
| "fgt (Fin a) PInf = False"
| "fgt (Fin a) NInf = True"
| "fgt PInf PInf = False"
| "fgt PInf b = True"
| "fgt NInf b = False"

definition flt :: "pyfloat \<Rightarrow> pyfloat \<Rightarrow> bool" where
  "flt a b = fgt b a"

text \<open>\<^verbatim>\<open>a * b\<close>: zero times an infinity is not-a-number.\<close>

fun fsign :: "pyfloat \<Rightarrow> int" where
  "fsign (Fin a) = (if a > 0 then 1 else if a < 0 then -1 else 0)"
| "fsign PInf = 1"
| "fsign NInf = -1"
| "fsign NaN = 0"

definition signed_inf :: "int \<Rightarrow> pyfloat" where
  "signed_inf s = (if s > 0 then PInf else if s < 0 then NInf else NaN)"

fun fmul :: "pyfloat \<Rightarrow> pyfloat \<Rightarrow> pyfloat" where
  "fmul NaN b = NaN"
| "fmul a NaN = NaN"
| "fmul (Fin a) (Fin b) = round64 (a * b)"
| "fmul a b = signed_inf (fsign a * fsign b)"

text \<open>\<^verbatim>\<open>a - b\<close>: the difference of two equal infinities is not-a-number.\<close>

fun fsub :: "pyfloat \<Rightarrow> pyfloat \<Rightarrow> pyfloat" where
  "fsub NaN b = NaN"
| "fsub a NaN = NaN"
| "fsub (Fin a) (Fin b) = round64 (a - b)"
| "fsub (Fin a) PInf = NInf"
| "fsub (Fin a) NInf = PInf"
| "fsub PInf PInf = NaN"
| "fsub PInf b = PInf"
| "fsub NInf NInf = NaN"
| "fsub NInf b = NInf"

text \<open>
  \<^verbatim>\<open>a / b\<close> on numpy floats, which does not raise: a finite value over an infinity is
  zero, an infinity over an infinity is not-a-number, and a division by zero gives an
  infinity (or not-a-number for zero over zero).
\<close>

fun fdiv :: "pyfloat \<Rightarrow> pyfloat \<Rightarrow> pyfloat" where
  "fdiv NaN b = NaN"
| "fdiv a NaN = NaN"
| "fdiv (Fin a) (Fin b) = (if b = 0 then signed_inf (fsign (Fin a)) else round64 (a / b))"
| "fdiv (Fin a) b = Fin 0"
| "fdiv a (Fin b) = signed_inf (fsign a * (if b < 0 then -1 else 1))"
| "fdiv a b = NaN"

subsection \<open>Errors and warnings\<close>

text \<open>
  The assertions of the source, each with the values its message is formatted from.
\<close>

datatype assertion =
    SamplesDoNotAgree nat nat
  | CovarianceWrongShape "nat list" "nat list"
  | CovarianceNotFinite
  | MatrixWrongShape nat nat "nat list"
  | ParameterNotFree string
  | ColumnWrongLength nat nat nat
  | NoMessage

datatype error =
    AssertionError assertion
  | IndexError
  | KeyError string
  | ValueError string
  | RuntimeError string
  | TypeError
  | AttributeError

text \<open>
  \<^verbatim>\<open>custom_warnings.warn("%s percent of samples have been thrown away ...")\<close>, with the
  percentage the message names.
\<close>

datatype warning = SamplesThrownAway real

subsection \<open>numpy arrays of floats, up to two dimensions\<close>

text \<open>
  A two-dimensional array carries its number of columns, so that an array without rows
  still has a shape. Arrays of more dimensions are left out.
\<close>

datatype ndarray = Arr0 pyfloat | Arr1 "pyfloat list" | Arr2 nat "pyfloat list list"

fun shape :: "ndarray \<Rightarrow> nat list" where
  "shape (Arr0 v) = []"
| "shape (Arr1 xs) = [length xs]"
| "shape (Arr2 c rs) = [length rs, c]"

fun well_formed :: "ndarray \<Rightarrow> bool" where
  "well_formed (Arr2 c rs) = list_all (\<lambda>r. length r = c) rs"
| "well_formed a = True"

text \<open>\<^verbatim>\<open>a.T\<close>\<close>

fun T :: "ndarray \<Rightarrow> ndarray" where
  "T (Arr2 c rs) = Arr2 (length rs) (map (\<lambda>j. map (\<lambda>r. r ! j) rs) [0..<c])"
| "T a = a"

text \<open>\<^verbatim>\<open>np.zeros(n)\<close> for a number and for a pair\<close>

definition zeros1 :: "nat \<Rightarrow> ndarray" where
  "zeros1 n = Arr1 (replicate n (Fin 0))"

definition zeros2 :: "nat \<Rightarrow> nat \<Rightarrow> ndarray" where
  "zeros2 r c = Arr2 c (replicate r (replicate c (Fin 0)))"

text \<open>\<^verbatim>\<open>np.all(np.isfinite(a))\<close>\<close>

fun all_isfinite :: "ndarray \<Rightarrow> bool" where
  "all_isfinite (Arr0 v) = isfinite v"
| "all_isfinite (Arr1 xs) = list_all isfinite xs"
| "all_isfinite (Arr2 c rs) = list_all (list_all isfinite) rs"

text \<open>
  An elementwise comparison of two vectors under numpy's broadcasting: equal lengths, or
  one of the two of length one.
\<close>

definition broadcast2 :: "(pyfloat \<Rightarrow> pyfloat \<Rightarrow> bool) \<Rightarrow> pyfloat list \<Rightarrow> pyfloat list
    \<Rightarrow> error + bool list" where
  "broadcast2 f xs ys =
     (if length xs = length ys then Inr (map2 f xs ys)
      else if length ys = 1 then Inr (map (\<lambda>x. f x (hd ys)) xs)
      else if length xs = 1 then Inr (map (\<lambda>y. f (hd xs) y) ys)
      else Inl (ValueError ''operands could not be broadcast together''))"

definition np_any :: "bool list \<Rightarrow> bool" where
  "np_any bs = list_ex (\<lambda>b. b) bs"

subsection \<open>The model, an external collaborator\<close>

text \<open>
  Of the astromodels model the results use the ordered mapping of the free parameters,
  path to parameter: a list in the mapping's order. A missing bound is \<^verbatim>\<open>None\<close>.
\<close>

record parameter =
  path :: string
  val :: pyfloat
  unit :: string
  min_value :: "pyfloat option"
  max_value :: "pyfloat option"

record model =
  free_parameters :: "parameter list"


subsection \<open>Plain Python objects\<close>

text \<open>
  The objects that stand as values in a FITS header and as keys of the dictionary of
  statistics: a string, a float, an integer and \<^verbatim>\<open>None\<close>.
\<close>

datatype pyobj = PStr string | PFloat pyfloat | PInt int | PNone

subsection \<open>Result records\<close>

text \<open>
  The attributes \<^verbatim>\<open>_AnalysisResults.__init__\<close> sets (lines 332--363). The field
  \<open>vals\<close> is the attribute \<^verbatim>\<open>_values\<close>, and \<open>val\<close> of a parameter its
  \<^verbatim>\<open>value\<close>. The clone of the model is the model: values are immutable here.
\<close>

record analysis_results =
  n_free_parameters :: nat
  optimized_model :: model
  samples_transposed :: ndarray
  optimal_statistic_values :: "(pyobj \<times> pyfloat) list"
  vals :: "pyfloat list"
  analysis_type :: string

text \<open>The two subclasses; an MLE result stores its covariance matrix as well.\<close>

datatype results = MLEResults analysis_results ndarray | BayesianResults analysis_results

fun base :: "results \<Rightarrow> analysis_results" where
  "base (MLEResults b c) = b"
| "base (BayesianResults b) = b"

text \<open>
  \<^verbatim>\<open>samples.shape[1]\<close> raises IndexError on an array of fewer than two dimensions.
\<close>

definition AnalysisResults_init :: "model \<Rightarrow> ndarray \<Rightarrow> (pyobj \<times> pyfloat) list \<Rightarrow> string
    \<Rightarrow> error + analysis_results" where
  "AnalysisResults_init m samples statistic_values a_type =
     (let n = length (free_parameters m) in
      case samples of
        Arr2 c rs \<Rightarrow>
          if c \<noteq> n then Inl (AssertionError (SamplesDoNotAgree c n))
          else Inr \<lparr>n_free_parameters = n, optimized_model = m,
                    samples_transposed = T samples,
                    optimal_statistic_values = statistic_values,
                    vals = map val (free_parameters m),
                    analysis_type = a_type\<rparr>
      | _ \<Rightarrow> Inl IndexError)"

definition BayesianResults_init :: "model \<Rightarrow> ndarray \<Rightarrow> (pyobj \<times> pyfloat) list
    \<Rightarrow> error + results" where
  "BayesianResults_init m samples posterior_values =
     (case AnalysisResults_init m samples posterior_values ''Bayesian'' of
        Inl e \<Rightarrow> Inl e
      | Inr b \<Rightarrow> Inr (BayesianResults b))"

subsection \<open>\<^verbatim>\<open>MLEResults.__init__\<close> (lines 710--784)\<close>

text \<open>
  The bounds as arrays of floats: the cast turns \<^verbatim>\<open>None\<close> into not-a-number, and
  every not-a-number then becomes the infinity of its side.
\<close>

definition to_float :: "pyfloat option \<Rightarrow> pyfloat" where
  "to_float b = (case b of None \<Rightarrow> NaN | Some v \<Rightarrow> v)"

definition low_bounds :: "model \<Rightarrow> pyfloat list" where
  "low_bounds m =
     map (\<lambda>b. if isnan b then NInf else b) (map (to_float \<circ> min_value) (free_parameters m))"

definition hi_bounds :: "model \<Rightarrow> pyfloat list" where
  "hi_bounds m =
     map (\<lambda>b. if isnan b then PInf else b) (map (to_float \<circ> max_value) (free_parameters m))"

text \<open>
  \<^verbatim>\<open>for i, sample in enumerate(samples): if np.any(sample > hi_bounds) or
  np.any(sample < low_bounds): to_be_kept_mask[i] = False\<close>
\<close>

fun reject_loop :: "(nat \<times> pyfloat list) list \<Rightarrow> pyfloat list \<Rightarrow> pyfloat list \<Rightarrow> bool list
    \<Rightarrow> error + bool list" where
  "reject_loop [] hi lo keep = Inr keep"
| "reject_loop ((i, sample) # rest) hi lo keep =
     (case broadcast2 fgt sample hi of
        Inl e \<Rightarrow> Inl e
      | Inr too_high \<Rightarrow>
          if np_any too_high then reject_loop rest hi lo (keep[i := False])
          else (case broadcast2 flt sample lo of
                  Inl e \<Rightarrow> Inl e
                | Inr too_low \<Rightarrow>
                    if np_any too_low then reject_loop rest hi lo (keep[i := False])
                    else reject_loop rest hi lo keep))"

text \<open>
  The second half of the constructor, from the samples on: the mask, the count of the
  removed samples, the warning, \<^verbatim>\<open>samples[to_be_kept_mask, :]\<close> and the call of the
  constructor of the base class.
\<close>

definition reject_samples :: "model \<Rightarrow> nat \<Rightarrow> pyfloat list list \<Rightarrow> ndarray
    \<Rightarrow> (pyobj \<times> pyfloat) list \<Rightarrow> error + (results \<times> warning list)" where
  "reject_samples m c rs covariance_matrix likelihood_values =
     (case reject_loop (enumerate 0 rs) (hi_bounds m) (low_bounds m)
             (replicate (length rs) True) of
        Inl e \<Rightarrow> Inl e
      | Inr to_be_kept_mask \<Rightarrow>
          (let n_removed_samples = length rs - length (filter (\<lambda>b. b) to_be_kept_mask);
               warnings =
                 (if real n_removed_samples > real (length rs) / 100
                  then [SamplesThrownAway (real n_removed_samples / real (length rs) * 100)]
                  else []);
               samples = Arr2 c (map fst (filter snd (zip rs to_be_kept_mask)))
           in case AnalysisResults_init m samples likelihood_values ''MLE'' of
                Inl e \<Rightarrow> Inl e
              | Inr b \<Rightarrow> Inr (MLEResults b covariance_matrix, warnings)))"

text \<open>
  The constructor. Its first argument stands for \<^verbatim>\<open>np.random.multivariate_normal\<close>,
  which returns one row per sample, each with one coordinate per parameter. The array
  \<open>covariance_matrix\<close> is the argument after \<^verbatim>\<open>np.array(covariance_matrix, float)\<close>.
\<close>

definition default_n_samples :: nat where
  "default_n_samples = 5000"

definition MLEResults_init :: "(pyfloat list \<Rightarrow> ndarray \<Rightarrow> nat \<Rightarrow> pyfloat list list)
    \<Rightarrow> model \<Rightarrow> ndarray \<Rightarrow> (pyobj \<times> pyfloat) list \<Rightarrow> nat
    \<Rightarrow> error + (results \<times> warning list)" where
  "MLEResults_init multivariate_normal m covariance_matrix likelihood_values n_samples =
     (let vs = map val (free_parameters m);
          expected_shape = [length vs, length vs]
      in if shape covariance_matrix \<noteq> [] then
           if shape covariance_matrix \<noteq> expected_shape
           then Inl (AssertionError (CovarianceWrongShape (shape covariance_matrix) expected_shape))
           else if \<not> all_isfinite covariance_matrix
           then Inl (AssertionError CovarianceNotFinite)
           else reject_samples m (length vs)
                  (multivariate_normal vs covariance_matrix n_samples)
                  covariance_matrix likelihood_values
         else reject_samples m (length vs)
                (replicate n_samples (map (fmul (Fin 1)) vs))
                (zeros2 (length vs) (length vs)) likelihood_values)"

text \<open>What numpy promises of the sampler: \<open>n\<close> rows of as many coordinates as the mean.\<close>

definition sampler_ok :: "(pyfloat list \<Rightarrow> ndarray \<Rightarrow> nat \<Rightarrow> pyfloat list list) \<Rightarrow> bool" where
  "sampler_ok multivariate_normal =
     (\<forall>mean cov n. length (multivariate_normal mean cov n) = n
        \<and> list_all (\<lambda>r. length r = length mean) (multivariate_normal mean cov n))"

text \<open>
  In the words of the specification: a coordinate is outside the bounds of its parameter
  when it is above the declared maximum or below the declared minimum, a missing bound
  acting as an infinity; a sample is rejected when one of its coordinates is.
\<close>

definition outside :: "parameter \<Rightarrow> pyfloat \<Rightarrow> bool" where
  "outside p x =
     (fgt x (case max_value p of None \<Rightarrow> PInf | Some b \<Rightarrow> b)
      \<or> flt x (case min_value p of None \<Rightarrow> NInf | Some b \<Rightarrow> b))"

definition rejected :: "model \<Rightarrow> pyfloat list \<Rightarrow> bool" where
  "rejected m sample = list_ex (\<lambda>(p, x). outside p x) (zip (free_parameters m) sample)"


subsection \<open>Rounding\<close>

text \<open>
  A number with at most 53 bits and an exponent of the format is a float; a number up to
  half of the smallest float (\<open>2 ^ -1074\<close>) is rounded to zero, one from \<open>2 ^ 1024\<close> on to
  an infinity, and one from the smallest float on to a positive float or an infinity.
\<close>

lemma round_half_even_of_int: "round_half_even (of_int k) = k"
  by (simp add: round_half_even_def)

lemma round_half_even_zero: "\<bar>q\<bar> \<le> 1 / 2 \<Longrightarrow> round_half_even q = 0"
proof -
  assume a: "\<bar>q\<bar> \<le> 1 / 2"
  consider "0 \<le> q" | "q < 0" by linarith
  then show ?thesis
  proof cases
    case 1
    with a have "\<lfloor>q\<rfloor> = 0" by (intro floor_unique) simp_all
    with a 1 show ?thesis by (simp add: round_half_even_def)
  next
    case 2
    with a have "\<lfloor>q\<rfloor> = - 1" by (intro floor_unique) simp_all
    with a 2 show ?thesis by (auto simp: round_half_even_def Let_def)
  qed
qed

lemma round_half_even_ge: "of_int k \<le> q \<Longrightarrow> k \<le> round_half_even q"
proof -
  assume "of_int k \<le> q"
  then have "k \<le> \<lfloor>q\<rfloor>" by (simp add: le_floor_iff)
  then show ?thesis by (simp add: round_half_even_def Let_def)
qed

lemma ulp_powr: "(2 :: real) powi k = 2 powr of_int k"
  by (simp add: powr_real_of_int')

lemma ulp_positive: "0 < (2 :: real) powi k"
  by (simp add: ulp_powr)

lemma floor_log2:
  assumes "x \<noteq> 0"
  shows "2 powr of_int \<lfloor>log 2 \<bar>x\<bar>\<rfloor> \<le> \<bar>x\<bar>" "\<bar>x\<bar> < 2 powr of_int (\<lfloor>log 2 \<bar>x\<bar>\<rfloor> + 1)"
  using floor_log_eq_powr_iff [of "\<bar>x\<bar>" 2 "\<lfloor>log 2 \<bar>x\<bar>\<rfloor>"] assms by simp_all

lemma round64_exact:
  assumes x: "x = of_int m * 2 powr of_int e"
    and m: "\<bar>m\<bar> < 2 ^ 53" and lo: "- 1074 \<le> e" and hi: "e \<le> 971"
  shows "round64 x = Fin x"
proof (cases "m = 0")
  case True
  then show ?thesis by (simp add: x round64_def round_half_even_of_int [of 0, simplified])
next
  case False
  define E where "E = float64_exponent x"
  define p where "p = \<lfloor>log 2 \<bar>x\<bar>\<rfloor>"
  have nz: "x \<noteq> 0" using False by (simp add: x)
  have abs: "\<bar>x\<bar> = of_int \<bar>m\<bar> * 2 powr of_int e"
    by (simp add: x abs_mult)
  have "of_int \<bar>m\<bar> < (2 :: real) ^ 53"
    using m by (metis of_int_less_iff of_int_numeral of_int_power)
  then have "\<bar>x\<bar> < 2 ^ 53 * 2 powr of_int e"
    unfolding abs by (simp add: mult_strict_right_mono)
  also have "\<dots> = 2 powr of_int (53 + e)"
    by (simp add: powr_add powr_realpow [symmetric])
  finally have up: "\<bar>x\<bar> < 2 powr of_int (53 + e)" .
  from floor_log2(1) [OF nz] up have "2 powr of_int p < (2 :: real) powr of_int (53 + e)"
    unfolding p_def by linarith
  then have "p < 53 + e" by simp
  then have E: "E - 52 \<le> e"
    using lo by (simp add: E_def float64_exponent_def p_def)
  define d where "d = nat (e - (E - 52))"
  have e: "e = (E - 52) + int d" using E by (simp add: d_def)
  have ulp: "(2 :: real) powr of_int e = 2 ^ d * 2 powr of_int (E - 52)"
    by (subst e) (simp add: powr_add powr_realpow)
  have q: "x / 2 powi (E - 52) = of_int (m * 2 ^ d)"
    unfolding ulp_powr x ulp by simp
  have y: "of_int (round_half_even (x / 2 powi (E - 52))) * 2 powi (E - 52) = x"
    unfolding q round_half_even_of_int by (simp add: x ulp ulp_powr)
  have "(2 :: real) powr of_int e \<le> 2 powr of_int 971"
    by (rule powr_mono) (use hi in simp_all)
  then have "2 ^ 53 * 2 powr of_int e \<le> (2 :: real) ^ 53 * 2 powr of_int 971"
    by (rule mult_left_mono) simp
  also have "\<dots> = 2 ^ 1024"
    by simp
  finally have "\<bar>x\<bar> < 2 ^ 1024"
    using \<open>\<bar>x\<bar> < 2 ^ 53 * 2 powr of_int e\<close> by linarith
  then show ?thesis
    unfolding round64_def Let_def E_def [symmetric] y by simp
qed


lemma round64_of_int: "\<bar>k\<bar> < 2 ^ 53 \<Longrightarrow> round64 (of_int k) = Fin (of_int k)"
  by (rule round64_exact [where m = k and e = 0]) simp_all

lemma round64_zero: "round64 0 = Fin 0"
  using round64_of_int [of 0] by simp

lemma round64_one: "round64 1 = Fin 1"
  using round64_of_int [of 1] by simp

lemma round64_numeral:
  "numeral n < (2 :: int) ^ 53 \<Longrightarrow> round64 (numeral n) = Fin (numeral n)"
  using round64_of_int [of "numeral n"] by simp

lemma round64_neg_numeral:
  "numeral n < (2 :: int) ^ 53 \<Longrightarrow> round64 (- numeral n) = Fin (- numeral n)"
  using round64_of_int [of "- numeral n"] by simp

lemma round64_half: "round64 (1 / 2) = Fin (1 / 2)"
  by (rule round64_exact [where m = 1 and e = "- 1"]) (simp_all add: powr_neg_one)

lemma float64_exponent_subnormal:
  assumes "x \<noteq> 0" "\<bar>x\<bar> < 2 powr of_int (- 1022)"
  shows "float64_exponent x = - 1022"
proof -
  from floor_log2(1) [OF assms(1)] assms(2)
  have "2 powr of_int \<lfloor>log 2 \<bar>x\<bar>\<rfloor> < (2 :: real) powr of_int (- 1022)"
    by linarith
  then have "\<lfloor>log 2 \<bar>x\<bar>\<rfloor> < - 1022" by (simp del: of_int_minus)
  then show ?thesis by (simp add: float64_exponent_def)
qed

lemma round64_underflow:
  assumes "\<bar>x\<bar> \<le> 2 powr of_int (- 1075)"
  shows "round64 x = Fin 0"
proof (cases "x = 0")
  case True
  then show ?thesis by (simp add: round64_zero)
next
  case False
  have "(2 :: real) powr of_int (- 1075) < 2 powr of_int (- 1022)"
    by (rule powr_less_mono) simp_all
  with assms have "\<bar>x\<bar> < 2 powr of_int (- 1022)" by linarith
  with False have E: "float64_exponent x = - 1022" by (rule float64_exponent_subnormal)
  have "\<bar>x / 2 powr of_int (- 1074)\<bar> = \<bar>x\<bar> / 2 powr of_int (- 1074)"
    by (simp del: of_int_minus)
  also have "\<dots> \<le> 2 powr of_int (- 1075) / 2 powr of_int (- 1074)"
    using assms by (rule divide_right_mono) simp
  also have "\<dots> = 2 powr (of_int (- 1075) - of_int (- 1074))"
    by (rule powr_diff [symmetric])
  also have "\<dots> = 1 / 2"
    by (simp add: powr_neg_one)
  finally have "round_half_even (x / 2 powr of_int (- 1074)) = 0"
    by (rule round_half_even_zero)
  then show ?thesis
    unfolding round64_def Let_def E ulp_powr by simp
qed

lemma round64_overflow:
  assumes "2 powr of_int 1024 \<le> x"
  shows "round64 x = PInf"
proof -
  have pos: "0 < x"
    using assms powr_gt_zero [of 2 "of_int 1024"] by linarith
  then have nz: "x \<noteq> 0" and abs: "\<bar>x\<bar> = x" by simp_all
  define p where "p = \<lfloor>log 2 \<bar>x\<bar>\<rfloor>"
  from assms pos have "of_int 1024 \<le> log 2 x"
    by (simp add: le_log_iff del: of_int_numeral)
  then have p: "1024 \<le> p"
    unfolding p_def abs by (simp add: le_floor_iff)
  then have E: "float64_exponent x = p"
    by (simp add: float64_exponent_def p_def)
  define ulp where "ulp = (2 :: real) powr of_int (p - 52)"
  have ulp: "0 < ulp" by (simp add: ulp_def)
  have split: "(2 :: real) powr of_int p = of_int (2 ^ 52) * ulp"
  proof -
    have "(2 :: real) powr of_int p = 2 powr (of_int 52 + of_int (p - 52))" by simp
    also have "\<dots> = 2 powr of_int 52 * ulp"
      unfolding ulp_def by (rule powr_add)
    finally show ?thesis by simp
  qed
  from floor_log2(1) [OF nz] have "2 powr of_int p \<le> x"
    by (simp add: p_def abs)
  then have "of_int (2 ^ 52) * ulp \<le> x"
    unfolding split .
  then have "of_int (2 ^ 52) \<le> x / ulp"
    using ulp by (simp add: pos_le_divide_eq)
  then have "2 ^ 52 \<le> round_half_even (x / ulp)"
    by (rule round_half_even_ge)
  then have "of_int (2 ^ 52) \<le> (of_int (round_half_even (x / ulp)) :: real)"
    by (simp only: of_int_le_iff)
  then have "of_int (2 ^ 52) * ulp \<le> of_int (round_half_even (x / ulp)) * ulp"
    using ulp by (simp only: mult_le_cancel_right_pos)
  then have "2 powr of_int p \<le> of_int (round_half_even (x / ulp)) * ulp"
    unfolding split .
  moreover have "(2 :: real) powr of_int 1024 \<le> 2 powr of_int p"
    by (rule powr_mono) (use p in simp_all)
  ultimately have "2 powr of_int 1024 \<le> of_int (round_half_even (x / ulp)) * ulp"
    by linarith
  moreover have "(2 :: real) powr of_int 1024 = 2 ^ 1024"
    by simp
  ultimately have "2 ^ 1024 \<le> \<bar>of_int (round_half_even (x / ulp)) * ulp\<bar>"
    by linarith
  then show ?thesis
    unfolding round64_def Let_def E ulp_powr ulp_def [symmetric] using pos by simp
qed

lemma round64_positive:
  assumes "2 powr of_int (- 1074) \<le> x"
  shows "round64 x = PInf \<or> (\<exists>y. round64 x = Fin y \<and> 0 < y)"
proof -
  have pos: "0 < x"
    using assms powr_gt_zero [of 2 "of_int (- 1074)"] by linarith
  then have nz: "x \<noteq> 0" and abs: "\<bar>x\<bar> = x" by simp_all
  define E where "E = float64_exponent x"
  define ulp where "ulp = (2 :: real) powr of_int (E - 52)"
  have ulp: "0 < ulp" by (simp add: ulp_def)
  have "ulp \<le> x"
  proof (cases "\<lfloor>log 2 \<bar>x\<bar>\<rfloor> \<le> - 1022")
    case True
    then have "E = - 1022" by (simp add: E_def float64_exponent_def)
    then have "ulp = 2 powr of_int (- 1074)" by (simp add: ulp_def)
    with assms show ?thesis by simp
  next
    case False
    then have "E = \<lfloor>log 2 \<bar>x\<bar>\<rfloor>" by (simp add: E_def float64_exponent_def)
    with floor_log2(1) [OF nz] have "2 powr of_int E \<le> x" by (simp add: abs)
    moreover have "ulp \<le> 2 powr of_int E"
      unfolding ulp_def by (rule powr_mono) simp_all
    ultimately show ?thesis by linarith
  qed
  then have "of_int 1 \<le> x / ulp"
    using ulp by (simp add: pos_le_divide_eq)
  then have "1 \<le> round_half_even (x / ulp)"
    by (rule round_half_even_ge)
  then have "0 < (of_int (round_half_even (x / ulp)) :: real)"
    by simp
  then have "0 < of_int (round_half_even (x / ulp)) * ulp"
    using ulp by simp
  then show ?thesis
    unfolding round64_def Let_def E_def [symmetric] ulp_powr ulp_def [symmetric]
    using pos by simp
qed

lemma round64_minus_one: "round64 (- 1) = Fin (- 1)"
  using round64_of_int [of "- 1"] by simp

lemmas round64_small =
  round64_zero round64_one round64_minus_one round64_numeral round64_neg_numeral round64_half

lemma fgt_round64_positive:
  "2 powr of_int (- 1074) \<le> x \<Longrightarrow> fgt (round64 x) (Fin 0)"
  using round64_positive [of x] by auto

lemma round_half_even_le: "q \<le> of_int k \<Longrightarrow> round_half_even q \<le> k"
proof -
  assume a: "q \<le> of_int k"
  then have f: "\<lfloor>q\<rfloor> \<le> k" by (simp add: floor_le_iff)
  show ?thesis
  proof (cases "\<lfloor>q\<rfloor> = k")
    case True
    with a have "q = of_int k" using of_int_floor_le [of q] by simp
    then show ?thesis by (simp add: round_half_even_of_int)
  next
    case False
    with f have "\<lfloor>q\<rfloor> + 1 \<le> k" by simp
    then show ?thesis by (simp add: round_half_even_def Let_def)
  qed
qed

lemma round64_not_positive:
  assumes "x \<le> 2 powr of_int (- 1075)"
  shows "\<not> fgt (round64 x) (Fin 0)"
proof (cases "0 \<le> x")
  case True
  with assms have "\<bar>x\<bar> \<le> 2 powr of_int (- 1075)" by simp
  then show ?thesis by (simp add: round64_underflow del: of_int_minus)
next
  case False
  then have neg: "x < 0" by simp
  define ulp where "ulp = (2 :: real) powi (float64_exponent x - 52)"
  have ulp: "0 < ulp" by (simp add: ulp_def ulp_positive)
  from neg ulp have "x / ulp \<le> of_int 0" by (simp add: divide_nonpos_pos)
  then have "round_half_even (x / ulp) \<le> 0" by (rule round_half_even_le)
  then have "(of_int (round_half_even (x / ulp)) :: real) \<le> 0" by simp
  then have "of_int (round_half_even (x / ulp)) * ulp \<le> 0"
    using ulp by (simp add: mult_le_0_iff)
  then show ?thesis
    unfolding round64_def Let_def ulp_def [symmetric] using neg by simp
qed

lemma float64_small: "float64 (Fin 0)" "float64 (Fin 1)"
  by (simp_all add: float64_def round64_zero round64_one)

subsection \<open>The rejection loop computes the mask of the samples within bounds\<close>

lemma fmul_one: "float64 v \<Longrightarrow> fmul (Fin 1) v = v"
  by (cases v) (simp_all add: signed_inf_def float64_def)

lemma fgt_PInf: "fgt x PInf = False"
  by (cases x) simp_all

lemma fgt_NInf_left: "fgt NInf x = False"
  by (cases x) simp_all

lemma fgt_NaN_right: "fgt x NaN = False"
  by (cases x) simp_all

text \<open>The test of the loop on one sample, and the specification's.\<close>

definition out_of_bounds :: "model \<Rightarrow> pyfloat list \<Rightarrow> bool" where
  "out_of_bounds m sample =
     (np_any (map2 fgt sample (hi_bounds m)) \<or> np_any (map2 flt sample (low_bounds m)))"

lemma outside_bounds:
  "outside p x =
     (fgt x ((\<lambda>b. if isnan b then PInf else b) (to_float (max_value p)))
      \<or> flt x ((\<lambda>b. if isnan b then NInf else b) (to_float (min_value p))))"
  by (simp add: outside_def to_float_def isnan_def flt_def fgt_PInf fgt_NInf_left fgt_NaN_right
      split: option.splits)

lemma out_of_bounds_rejected_aux:
  "length ps = length xs \<Longrightarrow>
   (list_ex (\<lambda>b. b) (map2 fgt xs (map ((\<lambda>b. if isnan b then PInf else b) \<circ> (to_float \<circ> max_value)) ps))
    \<or> list_ex (\<lambda>b. b) (map2 flt xs (map ((\<lambda>b. if isnan b then NInf else b) \<circ> (to_float \<circ> min_value)) ps)))
   = list_ex (\<lambda>(p, x). outside p x) (zip ps xs)"
  by (induction ps xs rule: list_induct2) (auto simp: outside_bounds)

lemma out_of_bounds_rejected:
  "length sample = length (free_parameters m) \<Longrightarrow> out_of_bounds m sample = rejected m sample"
  using out_of_bounds_rejected_aux [of "free_parameters m" sample]
  by (simp add: out_of_bounds_def rejected_def np_any_def hi_bounds_def low_bounds_def)

lemma reject_loop_step:
  assumes "length sample = length (free_parameters m)"
  shows "reject_loop ((i, sample) # rest) (hi_bounds m) (low_bounds m) keep
       = reject_loop rest (hi_bounds m) (low_bounds m)
           (if rejected m sample then keep[i := False] else keep)"
proof -
  have "length (hi_bounds m) = length sample" "length (low_bounds m) = length sample"
    using assms by (simp_all add: hi_bounds_def low_bounds_def)
  then show ?thesis
    using out_of_bounds_rejected [OF assms]
    by (auto simp: broadcast2_def out_of_bounds_def)
qed

lemma reject_loop_mask:
  assumes "list_all (\<lambda>r. length r = length (free_parameters m)) rs" "length pre = i"
  shows "reject_loop (enumerate i rs) (hi_bounds m) (low_bounds m) (pre @ replicate (length rs) True)
       = Inr (pre @ map (\<lambda>r. \<not> rejected m r) rs)"
  using assms
proof (induction rs arbitrary: i pre)
  case Nil
  then show ?case by simp
next
  case (Cons r rs)
  have "(if rejected m r then (pre @ True # replicate (length rs) True)[i := False]
         else pre @ True # replicate (length rs) True)
       = (pre @ [\<not> rejected m r]) @ replicate (length rs) True"
    using Cons.prems(2) by (simp add: list_update_append)
  moreover have "reject_loop (enumerate (Suc i) rs) (hi_bounds m) (low_bounds m)
        ((pre @ [\<not> rejected m r]) @ replicate (length rs) True)
      = Inr ((pre @ [\<not> rejected m r]) @ map (\<lambda>r. \<not> rejected m r) rs)"
    using Cons.prems by (intro Cons.IH) simp_all
  ultimately show ?case
    using Cons.prems(1) by (simp add: reject_loop_step del: reject_loop.simps)
qed

lemma masked_rows: "map fst (filter snd (zip rs (map P rs))) = filter P rs"
  by (induction rs) simp_all

lemma mask_count: "length (filter (\<lambda>b. b) (map P rs)) = length (filter P rs)"
  by (induction rs) simp_all

lemma warning_test: "(real n / 100 < real r) = (n < 100 * r)"
proof -
  have "(real n / 100 < real r) = (real n < real (100 * r))"
    by (simp add: field_simps)
  then show ?thesis by (simp only: of_nat_less_iff)
qed

lemma AnalysisResults_init_Arr2:
  "AnalysisResults_init m (Arr2 (length (free_parameters m)) rs) lv t =
     Inr \<lparr>n_free_parameters = length (free_parameters m), optimized_model = m,
          samples_transposed = T (Arr2 (length (free_parameters m)) rs),
          optimal_statistic_values = lv, vals = map val (free_parameters m),
          analysis_type = t\<rparr>"
  by (simp add: AnalysisResults_init_def Let_def del: T.simps)

lemma reject_samples_eq:
  assumes "list_all (\<lambda>r. length r = length (free_parameters m)) rs"
  shows "reject_samples m (length (free_parameters m)) rs cov lv =
      Inr (MLEResults
          \<lparr>n_free_parameters = length (free_parameters m), optimized_model = m,
            samples_transposed =
              T (Arr2 (length (free_parameters m)) (filter (\<lambda>r. \<not> rejected m r) rs)),
            optimal_statistic_values = lv, vals = map val (free_parameters m),
            analysis_type = ''MLE''\<rparr> cov,
          if length rs < 100 * (length rs - length (filter (\<lambda>r. \<not> rejected m r) rs))
          then [SamplesThrownAway
                  (real (length rs - length (filter (\<lambda>r. \<not> rejected m r) rs))
                     / real (length rs) * 100)]
          else [])"
proof -
  have "reject_loop (enumerate 0 rs) (hi_bounds m) (low_bounds m) ([] @ replicate (length rs) True)
      = Inr ([] @ map (\<lambda>r. \<not> rejected m r) rs)"
    using assms by (intro reject_loop_mask) simp_all
  then show ?thesis
    unfolding reject_samples_def Let_def
    by (simp only: append_Nil sum.case masked_rows mask_count warning_test
        AnalysisResults_init_Arr2)
qed

subsection \<open>Construction of MLE and Bayesian results\<close>

text \<open>A model with one free parameter and a sampler, for the examples.\<close>

definition crab :: model where
  "crab = \<lparr>free_parameters =
     [\<lparr>path = ''crab.spectrum.main.Powerlaw.K'', val = Fin 1, unit = ''1 / (cm2 keV s)'',
       min_value = Some (Fin 0), max_value = None\<rparr>]\<rparr>"

definition shifted_draws :: "pyfloat list \<Rightarrow> ndarray \<Rightarrow> nat \<Rightarrow> pyfloat list list" where
  "shifted_draws mean cov n = map (\<lambda>i. map (\<lambda>x. fsub x (Fin (real i))) mean) [0..<n]"

lemma sampler_ok_shifted_draws: "sampler_ok shifted_draws"
  by (simp add: sampler_ok_def shifted_draws_def list_all_iff)

text \<open>
  Claim C6. When an MLE result is built from a covariance matrix of the right shape with
  finite entries, the samples that are kept are exactly the drawn samples none of whose
  coordinates is outside the bounds of its parameter (a missing bound acting as an
  infinity); one warning naming the percentage of removed samples is emitted when more
  than one in a hundred of the \<open>n\<close> drawn samples was removed (\<open>n < 100 * removed\<close>),
  and none otherwise; the construction succeeds with the reduced sample set either way.
\<close>

theorem mle_sample_rejection:
  assumes "sampler_ok multivariate_normal"
    and "shape cov = [length (free_parameters m), length (free_parameters m)]"
    and "all_isfinite cov"
  shows "MLEResults_init multivariate_normal m cov lv n =
      Inr (MLEResults
          \<lparr>n_free_parameters = length (free_parameters m), optimized_model = m,
            samples_transposed =
              T (Arr2 (length (free_parameters m))
                   (filter (\<lambda>s. \<not> rejected m s)
                      (multivariate_normal (map val (free_parameters m)) cov n))),
            optimal_statistic_values = lv, vals = map val (free_parameters m),
            analysis_type = ''MLE''\<rparr> cov,
          if n < 100 * (n - length (filter (\<lambda>s. \<not> rejected m s)
                                      (multivariate_normal (map val (free_parameters m)) cov n)))
          then [SamplesThrownAway
                  (real (n - length (filter (\<lambda>s. \<not> rejected m s)
                                      (multivariate_normal (map val (free_parameters m)) cov n)))
                     / real n * 100)]
          else [])"
proof -
  let ?rs = "multivariate_normal (map val (free_parameters m)) cov n"
  from assms(1) have "length ?rs = n
      \<and> list_all (\<lambda>r. length r = length (map val (free_parameters m))) ?rs"
    unfolding sampler_ok_def by blast
  then have len: "length ?rs = n"
    and rows: "list_all (\<lambda>r. length r = length (free_parameters m)) ?rs"
    by simp_all
  have "MLEResults_init multivariate_normal m cov lv n
      = reject_samples m (length (free_parameters m)) ?rs cov lv"
    using assms(2,3) by (simp add: MLEResults_init_def Let_def)
  also note reject_samples_eq [OF rows, of cov lv]
  finally show ?thesis by (simp only: len)
qed

theorem mle_sample_rejection_witness:
  "sampler_ok shifted_draws \<and> shape (Arr2 1 [[Fin 4]]) = [length (free_parameters crab), length (free_parameters crab)]
   \<and> all_isfinite (Arr2 1 [[Fin 4]])
   \<and> MLEResults_init shifted_draws crab (Arr2 1 [[Fin 4]]) [(PStr ''data'', Fin 12)] 4 =
      Inr (MLEResults
          \<lparr>n_free_parameters = 1, optimized_model = crab,
            samples_transposed = Arr2 2 [[Fin 1, Fin 0]],
            optimal_statistic_values = [(PStr ''data'', Fin 12)], vals = [Fin 1],
            analysis_type = ''MLE''\<rparr> (Arr2 1 [[Fin 4]]),
          [SamplesThrownAway 50])"
proof -
  have a: "sampler_ok shifted_draws" by (rule sampler_ok_shifted_draws)
  have b: "shape (Arr2 1 [[Fin 4]]) = [length (free_parameters crab), length (free_parameters crab)]"
    by (simp add: crab_def)
  have c: "all_isfinite (Arr2 1 [[Fin 4]])" by (simp add: isfinite_def)
  have d: "[0..<4] = [0, 1, 2, 3]" by (simp add: upt_rec)
  show ?thesis
    using a b c mle_sample_rejection [OF a b c, of "[(PStr ''data'', Fin 12)]" 4]
    by (simp add: crab_def shifted_draws_def d rejected_def outside_def flt_def round64_small)
qed

lemma not_rejected_best_fit:
  assumes "\<forall>p \<in> set ps. \<not> outside p (val p)"
  shows "\<not> list_ex (\<lambda>(p, x). outside p x) (zip ps (map val ps))"
  using assms by (induction ps) simp_all

text \<open>
  Claim C7, as amended. Without covariance information, which is an array of shape
  \<^verbatim>\<open>()\<close> and not an empty one, and with every best-fit value a float within the bounds
  of its parameter, as the parameters of the model library keep it, the samples are \<open>n\<close>
  copies of the vector of best-fit values, the stored covariance matrix is the \<open>k\<close> by
  \<open>k\<close> matrix of zeros, and there is no warning.
\<close>

theorem mle_no_covariance:
  assumes "shape cov = []"
    and "\<forall>p \<in> set (free_parameters m). \<not> outside p (val p)"
    and "\<forall>p \<in> set (free_parameters m). float64 (val p)"
  shows "MLEResults_init multivariate_normal m cov lv n =
      Inr (MLEResults
          \<lparr>n_free_parameters = length (free_parameters m), optimized_model = m,
            samples_transposed =
              T (Arr2 (length (free_parameters m)) (replicate n (map val (free_parameters m)))),
            optimal_statistic_values = lv, vals = map val (free_parameters m),
            analysis_type = ''MLE''\<rparr>
          (zeros2 (length (free_parameters m)) (length (free_parameters m))), [])
     \<and> zeros2 (length (free_parameters m)) (length (free_parameters m))
       = Arr2 (length (free_parameters m))
           (replicate (length (free_parameters m)) (replicate (length (free_parameters m)) (Fin 0)))"
proof -
  let ?k = "length (free_parameters m)"
  let ?vs = "map val (free_parameters m)"
  let ?rs = "replicate n ?vs"
  have keep: "\<not> rejected m ?vs"
    using not_rejected_best_fit [OF assms(2)] by (simp add: rejected_def)
  have rows: "list_all (\<lambda>r. length r = ?k) ?rs"
    by (simp add: list_all_iff)
  have same: "map (fmul (Fin 1)) ?vs = ?vs"
    by (rule map_idI) (use assms(3) in \<open>auto simp: fmul_one\<close>)
  have all: "filter (\<lambda>r. \<not> rejected m r) ?rs = ?rs"
    using keep by simp
  have "MLEResults_init multivariate_normal m cov lv n
      = reject_samples m ?k ?rs (zeros2 ?k ?k) lv"
    using assms(1) by (simp add: MLEResults_init_def Let_def same del: map_map)
  also note reject_samples_eq [OF rows, of "zeros2 ?k ?k" lv]
  finally show ?thesis by (simp add: all zeros2_def del: T.simps)
qed

theorem mle_no_covariance_witness:
  "shape (Arr0 NaN) = [] \<and> list_all (\<lambda>p. \<not> outside p (val p)) (free_parameters crab)
   \<and> list_all (\<lambda>p. float64 (val p)) (free_parameters crab)
   \<and> MLEResults_init shifted_draws crab (Arr0 NaN) [] 3 =
      Inr (MLEResults
          \<lparr>n_free_parameters = 1, optimized_model = crab,
            samples_transposed = Arr2 3 [[Fin 1, Fin 1, Fin 1]],
            optimal_statistic_values = [], vals = [Fin 1],
            analysis_type = ''MLE''\<rparr> (Arr2 1 [[Fin 0]]), [])"
proof -
  have a: "shape (Arr0 NaN) = []" by simp
  have b: "\<forall>p \<in> set (free_parameters crab). \<not> outside p (val p)"
    by (simp add: crab_def outside_def flt_def)
  have f: "\<forall>p \<in> set (free_parameters crab). float64 (val p)"
    by (simp add: crab_def float64_small)
  have c: "replicate 3 x = [x, x, x]" for x :: "pyfloat list"
    by (simp add: numeral_3_eq_3)
  show ?thesis
    using a b f mle_no_covariance [OF a b f, of shifted_draws "[]" 3]
    by (simp add: crab_def c zeros2_def list_all_iff)
qed

text \<open>
  The claim as stated fails on an empty covariance matrix: the arrays of shape \<open>(0)\<close>
  and \<open>(0, 0)\<close> do not have the shape \<^verbatim>\<open>()\<close>, so the constructor compares their shape
  with \<open>(k, k)\<close> and raises the assertion; there are no samples and no matrix of zeros.
\<close>

theorem mle_no_covariance_counterexample:
  "MLEResults_init shifted_draws crab (Arr1 []) [] 3
     = Inl (AssertionError (CovarianceWrongShape [0] [1, 1]))
   \<and> MLEResults_init shifted_draws crab (Arr2 0 []) [] 3
     = Inl (AssertionError (CovarianceWrongShape [0, 0] [1, 1]))"
  by (simp add: MLEResults_init_def crab_def Let_def)

text \<open>
  Claim C5, as amended. For a model with \<open>k\<close> free parameters, a covariance array whose
  shape is neither \<^verbatim>\<open>()\<close> nor \<open>(k, k)\<close>, in particular one of shape \<open>(k+1, k+1)\<close>, makes
  the construction fail with the assertion that names the shape it got and the one it
  expected; a two-dimensional sample matrix with \<open>c \<noteq> k\<close> columns makes it fail with
  the assertion that names \<open>c\<close> and \<open>k\<close>.
\<close>

theorem construction_shape_errors:
  "(shape cov \<noteq> [] \<and> shape cov \<noteq> [length (free_parameters m), length (free_parameters m)] \<longrightarrow>
      MLEResults_init multivariate_normal m cov lv n =
        Inl (AssertionError (CovarianceWrongShape (shape cov)
               [length (free_parameters m), length (free_parameters m)])))
   \<and> MLEResults_init multivariate_normal m
        (zeros2 (length (free_parameters m) + 1) (length (free_parameters m) + 1)) lv n =
        Inl (AssertionError (CovarianceWrongShape
               [length (free_parameters m) + 1, length (free_parameters m) + 1]
               [length (free_parameters m), length (free_parameters m)]))
   \<and> (c \<noteq> length (free_parameters m) \<longrightarrow>
      BayesianResults_init m (Arr2 c rs) pv =
        Inl (AssertionError (SamplesDoNotAgree c (length (free_parameters m)))))"
  by (simp add: MLEResults_init_def BayesianResults_init_def AnalysisResults_init_def Let_def
      zeros2_def)

theorem construction_shape_errors_witness:
  "shape (Arr2 2 [[Fin 1, Fin 0], [Fin 0, Fin 1]]) \<noteq> []
   \<and> shape (Arr2 2 [[Fin 1, Fin 0], [Fin 0, Fin 1]]) \<noteq> [length (free_parameters crab), length (free_parameters crab)]
   \<and> MLEResults_init shifted_draws crab (Arr2 2 [[Fin 1, Fin 0], [Fin 0, Fin 1]]) [] 3 =
        Inl (AssertionError (CovarianceWrongShape [2, 2] [1, 1]))
   \<and> 2 \<noteq> length (free_parameters crab)
   \<and> BayesianResults_init crab (Arr2 2 [[Fin 1, Fin 2]]) [] =
        Inl (AssertionError (SamplesDoNotAgree 2 1))"
  using construction_shape_errors [of "Arr2 2 [[Fin 1, Fin 0], [Fin 0, Fin 1]]" crab shifted_draws "[]" 3 2
      "[[Fin 1, Fin 2]]" "[]"]
  by (simp add: crab_def)

text \<open>
  The claim as stated fails on an array of shape \<^verbatim>\<open>()\<close>, which is not of shape
  \<open>(1, 1)\<close>: the constructor takes it for "no error information" and stores the one by
  one matrix of zeros in its place.
\<close>

theorem construction_shape_errors_counterexample:
  "shape (Arr0 (Fin 2)) \<noteq> [length (free_parameters crab), length (free_parameters crab)]
   \<and> MLEResults_init shifted_draws crab (Arr0 (Fin 2)) [] 3 =
      Inr (MLEResults
          \<lparr>n_free_parameters = 1, optimized_model = crab,
            samples_transposed = Arr2 3 [[Fin 1, Fin 1, Fin 1]],
            optimal_statistic_values = [], vals = [Fin 1],
            analysis_type = ''MLE''\<rparr> (Arr2 1 [[Fin 0]]), [])"
  by (simp add: MLEResults_init_def reject_samples_def crab_def Let_def zeros2_def
      hi_bounds_def low_bounds_def to_float_def isnan_def broadcast2_def np_any_def flt_def
      AnalysisResults_init_def signed_inf_def numeral_3_eq_3 enumerate_eq_zip upt_rec
      round64_small)


section \<open>The correlation matrix\<close>

text \<open>
  Source: \<^verbatim>\<open>_AnalysisResults._get_correlation_matrix\<close>, lines 489--522. A name of the
  source that starts with an underscore has the prefix \<open>p_\<close> here.
\<close>

subsection \<open>Indexing a two-dimensional array\<close>

text \<open>
  \<^verbatim>\<open>a[i, j]\<close> and \<^verbatim>\<open>a[i, j] = v\<close> raise IndexError out of range and on an array of
  fewer than two dimensions.
\<close>

definition getitem2 :: "ndarray \<Rightarrow> nat \<Rightarrow> nat \<Rightarrow> error + pyfloat" where
  "getitem2 a i j =
     (case a of
        Arr2 c rs \<Rightarrow> if i < length rs \<and> j < c then Inr (rs ! i ! j) else Inl IndexError
      | _ \<Rightarrow> Inl IndexError)"

definition setitem2 :: "ndarray \<Rightarrow> nat \<Rightarrow> nat \<Rightarrow> pyfloat \<Rightarrow> error + ndarray" where
  "setitem2 a i j v =
     (case a of
        Arr2 c rs \<Rightarrow>
          if i < length rs \<and> j < c then Inr (Arr2 c (rs[i := (rs ! i)[j := v]]))
          else Inl IndexError
      | _ \<Rightarrow> Inl IndexError)"

text \<open>\<^verbatim>\<open>np.zeros_like(a)\<close>\<close>

fun zeros_like :: "ndarray \<Rightarrow> ndarray" where
  "zeros_like (Arr0 v) = Arr0 (Fin 0)"
| "zeros_like (Arr1 xs) = zeros1 (length xs)"
| "zeros_like (Arr2 c rs) = zeros2 (length rs) c"

text \<open>
  \<^verbatim>\<open>math.sqrt\<close>: a ValueError on a negative number, the rounded square root
  otherwise.
\<close>

fun fsqrt :: "pyfloat \<Rightarrow> pyfloat" where
  "fsqrt (Fin a) = round64 (sqrt a)"
| "fsqrt x = x"

definition math_sqrt :: "pyfloat \<Rightarrow> error + pyfloat" where
  "math_sqrt x =
     (if flt x (Fin 0) then Inl (ValueError ''math domain error'') else Inr (fsqrt x))"

subsection \<open>The two loops\<close>

text \<open>
  The inner loop over \<open>j\<close>, for one \<open>i\<close> and its \<^verbatim>\<open>variance_i\<close>, and the outer loop
  over \<open>i\<close>; both run over \<^verbatim>\<open>range(self._n_free_parameters)\<close>.
\<close>

fun corr_row :: "ndarray \<Rightarrow> nat \<Rightarrow> pyfloat \<Rightarrow> nat list \<Rightarrow> ndarray \<Rightarrow> error + ndarray" where
  "corr_row covariance i variance_i [] correlation_matrix = Inr correlation_matrix"
| "corr_row covariance i variance_i (j # js) correlation_matrix =
     (case getitem2 covariance j j of
        Inl e \<Rightarrow> Inl e
      | Inr variance_j \<Rightarrow>
          if fgt (fmul variance_i variance_j) (Fin 0) then
            (case getitem2 covariance i j of
               Inl e \<Rightarrow> Inl e
             | Inr c \<Rightarrow>
                 (case math_sqrt (fmul variance_i variance_j) of
                    Inl e \<Rightarrow> Inl e
                  | Inr d \<Rightarrow>
                      (case setitem2 correlation_matrix i j (fdiv c d) of
                         Inl e \<Rightarrow> Inl e
                       | Inr m \<Rightarrow> corr_row covariance i variance_i js m)))
          else
            (case setitem2 correlation_matrix i j NaN of
               Inl e \<Rightarrow> Inl e
             | Inr m \<Rightarrow> corr_row covariance i variance_i js m))"

fun corr_rows :: "ndarray \<Rightarrow> nat \<Rightarrow> nat list \<Rightarrow> ndarray \<Rightarrow> error + ndarray" where
  "corr_rows covariance n [] correlation_matrix = Inr correlation_matrix"
| "corr_rows covariance n (i # is) correlation_matrix =
     (case getitem2 covariance i i of
        Inl e \<Rightarrow> Inl e
      | Inr variance_i \<Rightarrow>
          (case corr_row covariance i variance_i [0..<n] correlation_matrix of
             Inl e \<Rightarrow> Inl e
           | Inr m \<Rightarrow> corr_rows covariance n is m))"

definition p_get_correlation_matrix :: "nat \<Rightarrow> ndarray \<Rightarrow> error + ndarray" where
  "p_get_correlation_matrix n_free covariance =
     corr_rows covariance n_free [0..<n_free] (zeros_like covariance)"

text \<open>
  \<^verbatim>\<open>MLEResults.get_correlation_matrix\<close>, on the stored covariance matrix, and
  \<^verbatim>\<open>BayesianResults.get_correlation_matrix\<close>, on the covariance matrix that
  \<^verbatim>\<open>estimate_covariance_matrix\<close> gets from \<^verbatim>\<open>np.cov(self._samples_transposed)\<close>; the
  first argument stands for \<^verbatim>\<open>np.cov\<close>.
\<close>

fun get_correlation_matrix :: "(ndarray \<Rightarrow> ndarray) \<Rightarrow> results \<Rightarrow> error + ndarray" where
  "get_correlation_matrix np_cov (MLEResults b covariance_matrix) =
     p_get_correlation_matrix (n_free_parameters b) covariance_matrix"
| "get_correlation_matrix np_cov (BayesianResults b) =
     p_get_correlation_matrix (n_free_parameters b) (np_cov (samples_transposed b))"

text \<open>The entry of a two-dimensional array, and the cell the specification describes.\<close>

fun entry :: "ndarray \<Rightarrow> nat \<Rightarrow> nat \<Rightarrow> pyfloat" where
  "entry (Arr2 c rs) i j = rs ! i ! j"
| "entry a i j = NaN"

definition correlation_cell :: "ndarray \<Rightarrow> nat \<Rightarrow> nat \<Rightarrow> pyfloat" where
  "correlation_cell cov i j =
     (if fgt (fmul (entry cov i i) (entry cov j j)) (Fin 0)
      then fdiv (entry cov i j) (fsqrt (fmul (entry cov i i) (entry cov j j)))
      else NaN)"


subsection \<open>What the loops compute\<close>

lemma math_sqrt_positive:
  "fgt p (Fin 0) \<Longrightarrow> math_sqrt p = Inr (fsqrt p)"
  by (cases p) (simp_all add: math_sqrt_def flt_def)

text \<open>A square array of side \<open>n\<close>, by its rows.\<close>

definition square :: "nat \<Rightarrow> pyfloat list list \<Rightarrow> bool" where
  "square n rs = (length rs = n \<and> (\<forall>r \<in> set rs. length r = n))"

lemma square_update:
  "square n rs \<Longrightarrow> i < n \<Longrightarrow> square n (rs[i := (rs ! i)[j := v]])"
  by (auto simp: square_def dest!: set_update_subset_insert [THEN subsetD])

lemma square_nth:
  "square n rs \<Longrightarrow> i < n \<Longrightarrow> length (rs ! i) = n"
  by (simp add: square_def)

lemma nth_nth_update:
  assumes "i < length rs" "a < length rs" "j < length (rs ! i)"
  shows "rs[i := (rs ! i)[j := v]] ! a ! b = (if a = i \<and> b = j then v else rs ! a ! b)"
  using assms by (cases "a = i") (auto simp: nth_list_update)

lemma upt_below: "set [0..<n] \<subseteq> {..<n}"
  by auto

lemma corr_row_cells:
  assumes "square n covs" "i < n" "set js \<subseteq> {..<n}" "square n rs"
  shows "\<exists>rs'. corr_row (Arr2 n covs) i (covs ! i ! i) js (Arr2 n rs) = Inr (Arr2 n rs')
     \<and> square n rs'
     \<and> (\<forall>a < n. \<forall>b < n. rs' ! a ! b =
          (if a = i \<and> b \<in> set js then correlation_cell (Arr2 n covs) i b else rs ! a ! b))"
  using assms(3,4)
proof (induction js arbitrary: rs)
  case Nil
  then show ?case by simp
next
  case (Cons j js)
  let ?v = "correlation_cell (Arr2 n covs) i j"
  let ?rs = "rs[i := (rs ! i)[j := ?v]]"
  from Cons.prems have j: "j < n" and js: "set js \<subseteq> {..<n}" by simp_all
  have len: "length covs = n" "length rs = n"
    using assms(1) Cons.prems(2) by (simp_all add: square_def)
  have sq: "square n ?rs"
    using Cons.prems(2) assms(2) by (rule square_update)
  have step: "corr_row (Arr2 n covs) i (covs ! i ! i) (j # js) (Arr2 n rs)
      = corr_row (Arr2 n covs) i (covs ! i ! i) js (Arr2 n ?rs)"
    using assms(2) j len
    by (simp add: getitem2_def setitem2_def correlation_cell_def math_sqrt_positive)
  from Cons.IH [OF js sq] obtain rs' where
    run: "corr_row (Arr2 n covs) i (covs ! i ! i) js (Arr2 n ?rs) = Inr (Arr2 n rs')"
    and sq': "square n rs'"
    and cells: "\<forall>a < n. \<forall>b < n. rs' ! a ! b =
          (if a = i \<and> b \<in> set js then correlation_cell (Arr2 n covs) i b else ?rs ! a ! b)"
    by blast
  have "rs' ! a ! b =
      (if a = i \<and> b \<in> set (j # js) then correlation_cell (Arr2 n covs) i b else rs ! a ! b)"
    if "a < n" "b < n" for a b
  proof -
    have "?rs ! a ! b = (if a = i \<and> b = j then ?v else rs ! a ! b)"
      using assms(2) that(1) j len square_nth [OF Cons.prems(2) assms(2)]
      by (intro nth_nth_update) simp_all
    with cells that show ?thesis by auto
  qed
  with run sq' step show ?case by auto
qed

lemma corr_rows_cells:
  assumes "square n covs" "set is \<subseteq> {..<n}" "square n rs"
  shows "\<exists>rs'. corr_rows (Arr2 n covs) n is (Arr2 n rs) = Inr (Arr2 n rs')
     \<and> square n rs'
     \<and> (\<forall>a < n. \<forall>b < n. rs' ! a ! b =
          (if a \<in> set is then correlation_cell (Arr2 n covs) a b else rs ! a ! b))"
  using assms(2,3)
proof (induction "is" arbitrary: rs)
  case Nil
  then show ?case by simp
next
  case (Cons i "is")
  from Cons.prems have i: "i < n" and rest: "set is \<subseteq> {..<n}" by simp_all
  have len: "length covs = n" using assms(1) by (simp add: square_def)
  from corr_row_cells [OF assms(1) i upt_below Cons.prems(2)] obtain rs1 where
    row: "corr_row (Arr2 n covs) i (covs ! i ! i) [0..<n] (Arr2 n rs) = Inr (Arr2 n rs1)"
    and sq1: "square n rs1"
    and cells1: "\<forall>a < n. \<forall>b < n. rs1 ! a ! b =
          (if a = i \<and> b \<in> set [0..<n] then correlation_cell (Arr2 n covs) i b else rs ! a ! b)"
    by auto
  from Cons.IH [OF rest sq1] obtain rs' where
    run: "corr_rows (Arr2 n covs) n is (Arr2 n rs1) = Inr (Arr2 n rs')"
    and sq': "square n rs'"
    and cells: "\<forall>a < n. \<forall>b < n. rs' ! a ! b =
          (if a \<in> set is then correlation_cell (Arr2 n covs) a b else rs1 ! a ! b)"
    by blast
  have "corr_rows (Arr2 n covs) n (i # is) (Arr2 n rs) = Inr (Arr2 n rs')"
    using i len row run by (simp add: getitem2_def)
  moreover have "rs' ! a ! b =
      (if a \<in> set (i # is) then correlation_cell (Arr2 n covs) a b else rs ! a ! b)"
    if "a < n" "b < n" for a b
    using cells cells1 that by auto
  ultimately show ?case using sq' by auto
qed

lemma fmul_zero_not_positive: "\<not> fgt (fmul (Fin 0) v) (Fin 0)" "\<not> fgt (fmul v (Fin 0)) (Fin 0)"
  by (cases v; simp add: signed_inf_def round64_zero)+

lemma correlation_matrix_run:
  assumes "well_formed cov" "shape cov = [n, n]"
  shows "\<exists>corr. p_get_correlation_matrix n cov = Inr corr \<and> shape corr = [n, n]
     \<and> well_formed corr
     \<and> (\<forall>a < n. \<forall>b < n. entry corr a b = correlation_cell cov a b)"
proof -
  from assms(2) obtain covs where cov: "cov = Arr2 n covs" and len: "length covs = n"
    by (cases cov) auto
  with assms(1) have sq: "square n covs"
    by (simp add: square_def list_all_iff)
  have z: "square n (replicate n (replicate n (Fin 0)))"
    by (simp add: square_def)
  from corr_rows_cells [OF sq upt_below z] obtain rs' where
    run: "corr_rows (Arr2 n covs) n [0..<n] (Arr2 n (replicate n (replicate n (Fin 0))))
        = Inr (Arr2 n rs')"
    and sq': "square n rs'"
    and cells: "\<forall>a < n. \<forall>b < n. rs' ! a ! b = correlation_cell (Arr2 n covs) a b"
    by auto
  have res: "p_get_correlation_matrix n cov = Inr (Arr2 n rs')"
    using run by (simp add: p_get_correlation_matrix_def cov len zeros2_def)
  show ?thesis
    using res sq' cells
    by (intro exI [of _ "Arr2 n rs'"]) (auto simp: square_def list_all_iff cov)
qed

text \<open>
  Claim C8, as amended. For every square covariance matrix of the side \<open>n\<close> the loops run
  over, the computation of the correlation matrix returns (it raises nothing) a matrix of
  the same shape. Its cell \<open>(i, j)\<close> is the float quotient
  \<open>cov[i,j] / sqrt(cov[i,i] * cov[j,j])\<close> when the float product \<open>cov[i,i] * cov[j,j]\<close> is
  strictly positive, and not-a-number when it is not. For finite variances the float
  product is strictly positive when the exact product is at least the smallest float,
  \<open>2 ^ -1074\<close>, and it is not when the exact product is at most \<open>2 ^ -1075\<close>: a positive
  product that small underflows to zero and the cell is not-a-number. An exact product
  of \<open>2 ^ 1024\<close> or more overflows to an infinity, and the cell of a finite covariance is
  zero. A zero on the diagonal at \<open>i\<close> gives not-a-number in row \<open>i\<close> and in column \<open>i\<close>.
\<close>

theorem correlation_matrix_cells:
  assumes "well_formed cov" "shape cov = [n, n]" "i < n" "j < n"
  shows "\<exists>corr. p_get_correlation_matrix n cov = Inr corr \<and> shape corr = [n, n]
     \<and> well_formed corr
     \<and> entry corr i j = correlation_cell cov i j
     \<and> (fgt (fmul (entry cov i i) (entry cov j j)) (Fin 0) \<longrightarrow>
          entry corr i j
            = fdiv (entry cov i j) (fsqrt (fmul (entry cov i i) (entry cov j j))))
     \<and> (\<not> fgt (fmul (entry cov i i) (entry cov j j)) (Fin 0) \<longrightarrow> entry corr i j = NaN)
     \<and> (\<forall>a b. entry cov i i = Fin a \<and> entry cov j j = Fin b
            \<and> 2 powr of_int (- 1074) \<le> a * b \<longrightarrow>
          entry corr i j = fdiv (entry cov i j) (fsqrt (round64 (a * b))))
     \<and> (\<forall>a b. entry cov i i = Fin a \<and> entry cov j j = Fin b
            \<and> a * b \<le> 2 powr of_int (- 1075) \<longrightarrow> entry corr i j = NaN)
     \<and> (\<forall>a b c. entry cov i i = Fin a \<and> entry cov j j = Fin b \<and> entry cov i j = Fin c
            \<and> 2 powr of_int 1024 \<le> a * b \<longrightarrow> entry corr i j = Fin 0)
     \<and> (entry cov i i = Fin 0 \<longrightarrow> entry corr i j = NaN \<and> entry corr j i = NaN)"
proof -
  from correlation_matrix_run [OF assms(1,2)] obtain corr where
    res: "p_get_correlation_matrix n cov = Inr corr" "shape corr = [n, n]" "well_formed corr"
    and cells: "\<forall>a < n. \<forall>b < n. entry corr a b = correlation_cell cov a b"
    by blast
  have ij: "entry corr i j = correlation_cell cov i j"
    and ji: "entry corr j i = correlation_cell cov j i"
    using cells assms(3,4) by simp_all
  have big: "correlation_cell cov i j = fdiv (entry cov i j) (fsqrt (round64 (a * b)))"
    if "entry cov i i = Fin a" "entry cov j j = Fin b" "2 powr of_int (- 1074) \<le> a * b"
    for a b
    using that fgt_round64_positive [OF that(3)]
    by (simp add: correlation_cell_def del: of_int_minus)
  have small: "correlation_cell cov i j = NaN"
    if "entry cov i i = Fin a" "entry cov j j = Fin b" "a * b \<le> 2 powr of_int (- 1075)"
    for a b
    using that round64_not_positive [OF that(3)]
    by (simp add: correlation_cell_def del: of_int_minus)
  have huge: "correlation_cell cov i j = Fin 0"
    if "entry cov i i = Fin a" "entry cov j j = Fin b" "entry cov i j = Fin c"
      "2 powr of_int 1024 \<le> a * b"
    for a b c
    using that round64_overflow [OF that(4)]
    by (simp add: correlation_cell_def)
  have zero: "correlation_cell cov i j = NaN \<and> correlation_cell cov j i = NaN"
    if "entry cov i i = Fin 0"
    using that by (simp add: correlation_cell_def fmul_zero_not_positive)
  have pos: "correlation_cell cov i j
      = fdiv (entry cov i j) (fsqrt (fmul (entry cov i i) (entry cov j j)))"
    if "fgt (fmul (entry cov i i) (entry cov j j)) (Fin 0)"
    using that by (simp add: correlation_cell_def)
  have nan: "correlation_cell cov i j = NaN"
    if "\<not> fgt (fmul (entry cov i i) (entry cov j j)) (Fin 0)"
    using that by (simp add: correlation_cell_def)
  show ?thesis
  proof (intro exI [of _ corr] conjI impI allI)
    show "p_get_correlation_matrix n cov = Inr corr" "shape corr = [n, n]" "well_formed corr"
      by (rule res)+
    show "entry corr i j = correlation_cell cov i j" by (rule ij)
    show "entry corr i j = fdiv (entry cov i j) (fsqrt (fmul (entry cov i i) (entry cov j j)))"
      if "fgt (fmul (entry cov i i) (entry cov j j)) (Fin 0)"
      using pos [OF that] ij by simp
    show "entry corr i j = NaN" if "\<not> fgt (fmul (entry cov i i) (entry cov j j)) (Fin 0)"
      using nan [OF that] ij by simp
    show "entry corr i j = fdiv (entry cov i j) (fsqrt (round64 (a * b)))"
      if "entry cov i i = Fin a \<and> entry cov j j = Fin b \<and> 2 powr of_int (- 1074) \<le> a * b"
      for a b
      using big [of a b] that ij by simp
    show "entry corr i j = NaN"
      if "entry cov i i = Fin a \<and> entry cov j j = Fin b \<and> a * b \<le> 2 powr of_int (- 1075)"
      for a b
      using small [of a b] that ij by simp
    show "entry corr i j = Fin 0"
      if "entry cov i i = Fin a \<and> entry cov j j = Fin b \<and> entry cov i j = Fin c
            \<and> 2 powr of_int 1024 \<le> a * b"
      for a b c
      using huge [of a b c] that ij by simp
    show "entry corr i j = NaN" if "entry cov i i = Fin 0"
      using zero [OF that] ij by simp
    show "entry corr j i = NaN" if "entry cov i i = Fin 0"
      using zero [OF that] ji by simp
  qed
qed

text \<open>A failed fit: the variance of the second parameter is zero.\<close>

definition failed_fit :: ndarray where
  "failed_fit = Arr2 2 [[Fin 4, Fin 1], [Fin 1, Fin 0]]"

theorem correlation_matrix_cells_witness:
  "well_formed failed_fit \<and> shape failed_fit = [2, 2] \<and> (0 :: nat) < 2 \<and> (1 :: nat) < 2
   \<and> (\<exists>corr. p_get_correlation_matrix 2 failed_fit = Inr corr \<and> shape corr = [2, 2]
         \<and> entry corr 0 1 = NaN)
   \<and> fgt (fmul (entry failed_fit 0 0) (entry failed_fit 0 0)) (Fin 0)
   \<and> (\<exists>corr. p_get_correlation_matrix 2 failed_fit = Inr corr \<and> entry corr 0 0 = Fin 1)"
proof -
  have a: "well_formed failed_fit" by (simp add: failed_fit_def)
  have b: "shape failed_fit = [2, 2]" by (simp add: failed_fit_def)
  have c: "(0 :: nat) < 2" and d: "(1 :: nat) < 2" by simp_all
  from correlation_matrix_cells [OF a b c d] obtain corr where
    "p_get_correlation_matrix 2 failed_fit = Inr corr" "shape corr = [2, 2]"
    "\<not> fgt (fmul (entry failed_fit 0 0) (entry failed_fit 1 1)) (Fin 0) \<longrightarrow> entry corr 0 1 = NaN"
    by blast
  then have nan: "\<exists>corr. p_get_correlation_matrix 2 failed_fit = Inr corr \<and> shape corr = [2, 2]
         \<and> entry corr 0 1 = NaN"
    by (auto simp: failed_fit_def round64_small)
  have "sqrt (4 * 4) = (4 :: real)" unfolding real_sqrt_abs2 by simp
  then have root: "sqrt 16 = 4" by simp
  have p: "fgt (fmul (entry failed_fit 0 0) (entry failed_fit 0 0)) (Fin 0)"
    by (simp add: failed_fit_def round64_small)
  from correlation_matrix_cells [OF a b c c] obtain corr' where
    "p_get_correlation_matrix 2 failed_fit = Inr corr'"
    "fgt (fmul (entry failed_fit 0 0) (entry failed_fit 0 0)) (Fin 0) \<longrightarrow>
       entry corr' 0 0
         = fdiv (entry failed_fit 0 0) (fsqrt (fmul (entry failed_fit 0 0) (entry failed_fit 0 0)))"
    by blast
  with p have one: "\<exists>corr. p_get_correlation_matrix 2 failed_fit = Inr corr \<and> entry corr 0 0 = Fin 1"
    by (auto simp: failed_fit_def round64_small root)
  from a b c d nan p one show ?thesis by (intro conjI)
qed

text \<open>
  The claim as stated fails where the product of the variances leaves the range of the
  floats. With both variances \<open>2 ^ -600\<close> the product is strictly positive and the
  quotient of the claim is one, but the float product is zero and the cell is
  not-a-number; with both variances \<open>2 ^ 600\<close> the float product is an infinity and the
  cell is zero.
\<close>

definition tiny_variances :: ndarray where
  "tiny_variances = Arr2 2 [[Fin (1 / 2 ^ 600), Fin 0], [Fin 0, Fin (1 / 2 ^ 600)]]"

definition huge_variances :: ndarray where
  "huge_variances = Arr2 2 [[Fin (2 ^ 600), Fin 0], [Fin 0, Fin (2 ^ 600)]]"

theorem correlation_matrix_cells_counterexample:
  "well_formed tiny_variances \<and> shape tiny_variances = [2, 2] \<and> all_isfinite tiny_variances
   \<and> float64 (Fin (1 / 2 ^ 600))
   \<and> (0 :: real) < 1 / 2 ^ 600 * (1 / 2 ^ 600)
   \<and> (1 / 2 ^ 600) / sqrt (1 / 2 ^ 600 * (1 / 2 ^ 600)) = (1 :: real)
   \<and> (\<exists>corr. p_get_correlation_matrix 2 tiny_variances = Inr corr \<and> entry corr 0 0 = NaN)
   \<and> well_formed huge_variances \<and> shape huge_variances = [2, 2] \<and> all_isfinite huge_variances
   \<and> float64 (Fin (2 ^ 600))
   \<and> (2 ^ 600) / sqrt (2 ^ 600 * 2 ^ 600) = (1 :: real)
   \<and> (\<exists>corr. p_get_correlation_matrix 2 huge_variances = Inr corr \<and> entry corr 0 0 = Fin 0)"
proof -
  have t: "well_formed tiny_variances" "shape tiny_variances = [2, 2]"
    "all_isfinite tiny_variances"
    by (simp_all add: tiny_variances_def isfinite_def)
  have h: "well_formed huge_variances" "shape huge_variances = [2, 2]"
    "all_isfinite huge_variances"
    by (simp_all add: huge_variances_def isfinite_def)
  have ft: "float64 (Fin (1 / 2 ^ 600))"
  proof -
    have "round64 (1 / 2 ^ 600) = Fin (1 / 2 ^ 600)"
      by (rule round64_exact [where m = 1 and e = "- 600"]) (simp_all add: powr_minus_divide)
    then show ?thesis by (simp add: float64_def)
  qed
  have fh: "float64 (Fin (2 ^ 600))"
  proof -
    have "round64 (2 ^ 600) = Fin (2 ^ 600)"
      by (rule round64_exact [where m = 1 and e = 600]) simp_all
    then show ?thesis by (simp add: float64_def)
  qed
  have pt: "(0 :: real) < 1 / 2 ^ 600 * (1 / 2 ^ 600)" by simp
  have qt: "(1 / 2 ^ 600) / sqrt (1 / 2 ^ 600 * (1 / 2 ^ 600)) = (1 :: real)"
    by (simp only: real_sqrt_abs2) simp
  have qh: "(2 ^ 600) / sqrt (2 ^ 600 * 2 ^ 600) = (1 :: real)"
    by (simp only: real_sqrt_abs2) simp
  have under: "round64 (1 / 2 ^ 600 * (1 / 2 ^ 600)) = Fin 0"
  proof (rule round64_underflow)
    have "(1 :: real) / 2 ^ 600 * (1 / 2 ^ 600) = 1 / 2 ^ 1200"
      by simp
    also have "\<dots> \<le> 1 / 2 ^ 1075"
      by (rule divide_left_mono) simp_all
    also have "\<dots> = 2 powr of_int (- 1075)"
      by (simp add: powr_minus_divide)
    finally show "\<bar>(1 :: real) / 2 ^ 600 * (1 / 2 ^ 600)\<bar> \<le> 2 powr of_int (- 1075)"
      by simp
  qed
  have over: "round64 (2 ^ 600 * 2 ^ 600) = PInf"
  proof (rule round64_overflow)
    have "(2 :: real) powr of_int 1024 = 2 ^ 1024" by simp
    also have "\<dots> \<le> 2 ^ 1200" by (rule power_increasing) simp_all
    also have "\<dots> = 2 ^ 600 * 2 ^ 600" by simp
    finally show "(2 :: real) powr of_int 1024 \<le> 2 ^ 600 * 2 ^ 600" .
  qed
  have zero: "(0 :: nat) < 2" by simp
  from correlation_matrix_run [OF t(1,2)] obtain corr where
    "p_get_correlation_matrix 2 tiny_variances = Inr corr"
    "entry corr 0 0 = correlation_cell tiny_variances 0 0"
    using zero by blast
  moreover have "correlation_cell tiny_variances 0 0 = NaN"
    unfolding correlation_cell_def tiny_variances_def entry.simps
    by (simp only: nth_Cons_0 fmul.simps under fgt.simps) simp
  ultimately have ct: "\<exists>corr. p_get_correlation_matrix 2 tiny_variances = Inr corr
      \<and> entry corr 0 0 = NaN"
    by auto
  from correlation_matrix_run [OF h(1,2)] obtain corr' where
    "p_get_correlation_matrix 2 huge_variances = Inr corr'"
    "entry corr' 0 0 = correlation_cell huge_variances 0 0"
    using zero by blast
  moreover have "correlation_cell huge_variances 0 0 = Fin 0"
    unfolding correlation_cell_def huge_variances_def entry.simps
    by (simp only: nth_Cons_0 fmul.simps over fgt.simps fsqrt.simps fdiv.simps if_True)
  ultimately have ch: "\<exists>corr. p_get_correlation_matrix 2 huge_variances = Inr corr
      \<and> entry corr 0 0 = Fin 0"
    by auto
  from t ft pt qt ct h fh qh ch show ?thesis by (intro conjI)
qed


section \<open>The table of parameters and errors\<close>

text \<open>
  Source: \<^verbatim>\<open>_AnalysisResults.get_variates\<close> (lines 393--406) and
  \<^verbatim>\<open>_AnalysisResults.get_data_frame\<close> (lines 544--600).
\<close>

subsection \<open>Random variates\<close>

text \<open>
  The class \<^verbatim>\<open>RandomVariates\<close> of \<^verbatim>\<open>threeML.random_variates\<close> is not among the
  sources. A variate is a vector of samples with a best value.
\<close>

datatype random_variates = RandomVariates "pyfloat list" pyfloat

fun rv_samples :: "random_variates \<Rightarrow> pyfloat list" where
  "rv_samples (RandomVariates s v) = s"

fun rv_value :: "random_variates \<Rightarrow> pyfloat" where
  "rv_value (RandomVariates s v) = v"

text \<open>
  Modelled from the spec: \<^verbatim>\<open>RandomVariates.equal_tail_confidence_interval\<close>, which is
  missing from the sources. The specification (4.3): "returns (lower, upper) as the
  (1-cl)/2 and 1-(1-cl)/2 quantiles of s. Requires 0<cl<1; fails with ValueError
  otherwise." The quantile of a vector of samples is the first argument.
\<close>

definition equal_tail_confidence_interval :: "(pyfloat list \<Rightarrow> real \<Rightarrow> pyfloat)
    \<Rightarrow> random_variates \<Rightarrow> real \<Rightarrow> error + (pyfloat \<times> pyfloat)" where
  "equal_tail_confidence_interval quantile rv cl =
     (if 0 < cl \<and> cl < 1
      then Inr (quantile (rv_samples rv) ((1 - cl) / 2),
                quantile (rv_samples rv) (1 - (1 - cl) / 2))
      else Inl (ValueError ''cl must be 0 < cl < 1''))"

subsection \<open>\<^verbatim>\<open>get_variates\<close>\<close>

text \<open>\<^verbatim>\<open>keys.index(k)\<close>: the first position of \<open>k\<close>, for a \<open>k\<close> that is in the list.\<close>

fun index_of :: "'a list \<Rightarrow> 'a \<Rightarrow> nat" where
  "index_of [] k = 0"
| "index_of (x # xs) k = (if x = k then 0 else Suc (index_of xs k))"

text \<open>
  The row \<^verbatim>\<open>self._samples_transposed[param_index]\<close>; the constructor stores a
  two-dimensional array.
\<close>

definition get_variates :: "analysis_results \<Rightarrow> string \<Rightarrow> error + random_variates" where
  "get_variates self param_path =
     (let keys = map path (free_parameters (optimized_model self))
      in if param_path \<notin> set keys then Inl (AssertionError (ParameterNotFree param_path))
         else
           (let param_index = index_of keys param_path
            in if \<not> param_index < length (vals self) then Inl IndexError
               else
                 (case samples_transposed self of
                    Arr2 c rs \<Rightarrow>
                      if param_index < length rs
                      then Inr (RandomVariates (rs ! param_index) (vals self ! param_index))
                      else Inl IndexError
                  | _ \<Rightarrow> Inl IndexError)))"

subsection \<open>\<^verbatim>\<open>get_data_frame\<close>\<close>

text \<open>One row of the data frame: the index (the path) and the five columns.\<close>

record frame_row =
  df_index :: string
  df_value :: pyfloat
  df_negative_error :: pyfloat
  df_positive_error :: pyfloat
  df_error :: pyfloat
  df_unit :: string

text \<open>The loop over \<^verbatim>\<open>self._free_parameters.values()\<close>.\<close>

fun data_frame_rows :: "(random_variates \<Rightarrow> real \<Rightarrow> error + (pyfloat \<times> pyfloat))
    \<Rightarrow> analysis_results \<Rightarrow> real \<Rightarrow> parameter list \<Rightarrow> error + frame_row list" where
  "data_frame_rows errors_gatherer self cl [] = Inr []"
| "data_frame_rows errors_gatherer self cl (this_par # rest) =
     (case get_variates self (path this_par) of
        Inl e \<Rightarrow> Inl e
      | Inr this_phys_q \<Rightarrow>
          (case errors_gatherer this_phys_q cl of
             Inl e \<Rightarrow> Inl e
           | Inr (low_bound, hi_bound) \<Rightarrow>
               (case data_frame_rows errors_gatherer self cl rest of
                  Inl e \<Rightarrow> Inl e
                | Inr frame \<Rightarrow>
                    Inr (\<lparr>df_index = path this_par,
                          df_value = rv_value this_phys_q,
                          df_negative_error = fsub low_bound (rv_value this_phys_q),
                          df_positive_error = fsub hi_bound (rv_value this_phys_q),
                          df_error = fdiv (fsub hi_bound low_bound) (Fin 2),
                          df_unit = unit this_par\<rparr> # frame))))"

definition get_data_frame :: "(pyfloat list \<Rightarrow> real \<Rightarrow> pyfloat) \<Rightarrow> analysis_results \<Rightarrow> string
    \<Rightarrow> real \<Rightarrow> error + frame_row list" where
  "get_data_frame quantile self error_type cl =
     (if error_type = ''equal tail''
      then data_frame_rows (equal_tail_confidence_interval quantile) self cl
             (free_parameters (optimized_model self))
      else if error_type = ''hpd''
      then data_frame_rows (equal_tail_confidence_interval quantile) self cl
             (free_parameters (optimized_model self))
      else Inl (ValueError (''error_type must be either '' @ [quote1] @ ''equal tail''
                  @ [quote1] @ '' or '' @ [quote1] @ ''hpd'' @ [quote1] @ ''. Got ''
                  @ error_type)))"

text \<open>The defaults of the two arguments.\<close>

definition default_error_type :: string where
  "default_error_type = ''equal tail''"

definition default_cl :: real where
  "default_cl = 68 / 100"

text \<open>A raised ValueError, whatever its message.\<close>

definition raises_ValueError :: "error + 'a \<Rightarrow> bool" where
  "raises_ValueError r = (case r of Inl (ValueError msg) \<Rightarrow> True | _ \<Rightarrow> False)"


subsection \<open>Error kinds and confidence levels\<close>

lemma get_variates_first:
  assumes "AnalysisResults_init m samples stats t = Inr self"
    and "free_parameters m = p # ps"
  shows "\<exists>q. get_variates self (path p) = Inr q"
  using assms
  by (cases samples)
     (auto simp: AnalysisResults_init_def get_variates_def Let_def split: if_splits)

lemma index_of_nth:
  "distinct xs \<Longrightarrow> i < length xs \<Longrightarrow> index_of xs (xs ! i) = i"
proof (induction xs arbitrary: i)
  case Nil
  then show ?case by simp
next
  case (Cons x xs)
  then show ?case by (cases i) auto
qed

text \<open>
  The row of the data frame for the parameter at position \<open>i\<close>, from the equal-tail
  quantiles of column \<open>i\<close> of the sample matrix.
\<close>

definition equal_tail_row :: "(pyfloat list \<Rightarrow> real \<Rightarrow> pyfloat) \<Rightarrow> model \<Rightarrow> pyfloat list list
    \<Rightarrow> real \<Rightarrow> nat \<Rightarrow> frame_row" where
  "equal_tail_row quantile m rs cl i =
     (let p = free_parameters m ! i;
          s = map (\<lambda>r. r ! i) rs;
          lo = quantile s ((1 - cl) / 2);
          hi = quantile s (1 - (1 - cl) / 2)
      in \<lparr>df_index = path p, df_value = val p,
           df_negative_error = fsub lo (val p),
           df_positive_error = fsub hi (val p),
           df_error = fdiv (fsub hi lo) (Fin 2),
           df_unit = unit p\<rparr>)"

lemma get_variates_nth:
  assumes "AnalysisResults_init m (Arr2 c rs) stats t = Inr self"
    and "distinct (map path (free_parameters m))"
    and "i < length (free_parameters m)"
  shows "get_variates self (path (free_parameters m ! i))
       = Inr (RandomVariates (map (\<lambda>r. r ! i) rs) (val (free_parameters m ! i)))"
proof -
  have "index_of (map path (free_parameters m)) (map path (free_parameters m) ! i) = i"
    using assms(2,3) by (intro index_of_nth) simp_all
  then have "index_of (map path (free_parameters m)) (path (free_parameters m ! i)) = i"
    using assms(3) by simp
  then show ?thesis
    using assms(1,3)
    by (auto simp: AnalysisResults_init_def get_variates_def Let_def split: if_splits)
qed

lemma data_frame_rows_from:
  assumes init: "AnalysisResults_init m (Arr2 c rs) stats t = Inr self"
    and d: "distinct (map path (free_parameters m))"
    and cl: "0 < cl" "cl < 1"
  shows "j \<le> length (free_parameters m) \<Longrightarrow>
     data_frame_rows (equal_tail_confidence_interval quantile) self cl
        (drop j (free_parameters m))
     = Inr (map (equal_tail_row quantile m rs cl) [j..<length (free_parameters m)])"
proof (induction "length (free_parameters m) - j" arbitrary: j)
  case 0
  then show ?case by simp
next
  case (Suc d)
  then have j: "j < length (free_parameters m)" by simp
  have dr: "drop j (free_parameters m) = free_parameters m ! j # drop (Suc j) (free_parameters m)"
    using j by (simp add: Cons_nth_drop_Suc)
  have ih: "data_frame_rows (equal_tail_confidence_interval quantile) self cl
        (drop (Suc j) (free_parameters m))
     = Inr (map (equal_tail_row quantile m rs cl) [Suc j..<length (free_parameters m)])"
    using Suc by (intro Suc.hyps(1)) simp_all
  show ?case
    using j cl
    by (simp add: dr ih get_variates_nth [OF init d j] equal_tail_confidence_interval_def
        equal_tail_row_def Let_def upt_conv_Cons)
qed

text \<open>
  Claim C9, as amended. An error kind other than "equal tail" and "hpd" raises ValueError.
  The kind "hpd" gives what "equal tail" gives, and on a constructed result with a
  confidence level in the open interval from 0 to 1 that is one row per free parameter
  with the errors from the equal-tail quantiles of the parameter's samples. A
  confidence level outside the interval raises ValueError, from the interval of the
  first parameter, when the model has a free parameter.
\<close>

theorem data_frame_errors:
  "(error_type \<noteq> ''equal tail'' \<and> error_type \<noteq> ''hpd'' \<longrightarrow>
       raises_ValueError (get_data_frame quantile self error_type cl))
   \<and> get_data_frame quantile self ''hpd'' cl = get_data_frame quantile self ''equal tail'' cl
   \<and> (0 < cl \<and> cl < 1 \<and> AnalysisResults_init m (Arr2 c rs) stats t = Inr self
        \<and> distinct (map path (free_parameters m)) \<longrightarrow>
       get_data_frame quantile self ''equal tail'' cl
         = Inr (map (equal_tail_row quantile m rs cl) [0..<length (free_parameters m)]))
   \<and> ((error_type = ''equal tail'' \<or> error_type = ''hpd'') \<and> \<not> (0 < cl \<and> cl < 1)
        \<and> AnalysisResults_init m samples stats t = Inr self \<and> free_parameters m \<noteq> [] \<longrightarrow>
       raises_ValueError (get_data_frame quantile self error_type cl))"
proof -
  have "raises_ValueError (get_data_frame quantile self error_type cl)"
    if et: "error_type = ''equal tail'' \<or> error_type = ''hpd''"
      and cl: "\<not> (0 < cl \<and> cl < 1)"
      and init: "AnalysisResults_init m samples stats t = Inr self"
      and ne: "free_parameters m \<noteq> []"
  proof -
    from ne obtain p ps where ps: "free_parameters m = p # ps"
      by (cases "free_parameters m") auto
    from get_variates_first [OF init ps] obtain q where q: "get_variates self (path p) = Inr q"
      by blast
    have om: "optimized_model self = m"
      using init by (cases samples) (auto simp: AnalysisResults_init_def Let_def split: if_splits)
    have "raises_ValueError (data_frame_rows (equal_tail_confidence_interval quantile) self cl
        (free_parameters (optimized_model self)))"
      using cl q by (auto simp: om ps equal_tail_confidence_interval_def raises_ValueError_def)
    with et show ?thesis by (auto simp: get_data_frame_def)
  qed
  moreover have "get_data_frame quantile self ''equal tail'' cl
         = Inr (map (equal_tail_row quantile m rs cl) [0..<length (free_parameters m)])"
    if cl: "0 < cl" "cl < 1"
      and init: "AnalysisResults_init m (Arr2 c rs) stats t = Inr self"
      and d: "distinct (map path (free_parameters m))"
  proof -
    have om: "optimized_model self = m"
      using init by (auto simp: AnalysisResults_init_def Let_def split: if_splits)
    show ?thesis
      using data_frame_rows_from [OF init d cl, of 0 quantile]
      by (simp add: get_data_frame_def om)
  qed
  ultimately show ?thesis
    by (auto simp: get_data_frame_def raises_ValueError_def)
qed


text \<open>A model without free parameters, and a quantile, for the examples.\<close>

definition fixed_model :: model where
  "fixed_model = \<lparr>free_parameters = []\<rparr>"

definition no_quantile :: "pyfloat list \<Rightarrow> real \<Rightarrow> pyfloat" where
  "no_quantile s q = NaN"

text \<open>
  The claim as stated fails for a result whose model has no free parameter: the loop
  does not run, the confidence level 2 is never looked at, and the table is empty.
\<close>

theorem data_frame_errors_counterexample:
  "BayesianResults_init fixed_model (Arr2 0 [[], []]) [] =
     Inr (BayesianResults
       \<lparr>n_free_parameters = 0, optimized_model = fixed_model,
         samples_transposed = Arr2 2 [], optimal_statistic_values = [], vals = [],
         analysis_type = ''Bayesian''\<rparr>)
   \<and> \<not> (0 < (2 :: real) \<and> (2 :: real) < 1)
   \<and> get_data_frame no_quantile
       \<lparr>n_free_parameters = 0, optimized_model = fixed_model,
         samples_transposed = Arr2 2 [], optimal_statistic_values = [], vals = [],
         analysis_type = ''Bayesian''\<rparr> ''equal tail'' 2 = Inr []"
  by (simp add: BayesianResults_init_def AnalysisResults_init_def fixed_model_def
      get_data_frame_def)


text \<open>A quantile for the examples: the sample at the rank, in a vector that is sorted.\<close>

definition rank_quantile :: "pyfloat list \<Rightarrow> real \<Rightarrow> pyfloat" where
  "rank_quantile s q = s ! nat \<lfloor>q * real (length s)\<rfloor>"

definition crab_posterior :: analysis_results where
  "crab_posterior =
     \<lparr>n_free_parameters = 1, optimized_model = crab,
       samples_transposed = Arr2 3 [[Fin 1, Fin 2, Fin 3]],
       optimal_statistic_values = [], vals = [Fin 1], analysis_type = ''Bayesian''\<rparr>"

lemma crab_posterior_init:
  "AnalysisResults_init crab (Arr2 1 [[Fin 1], [Fin 2], [Fin 3]]) [] ''Bayesian''
     = Inr crab_posterior"
  by (simp add: AnalysisResults_init_def crab_def crab_posterior_def)

theorem data_frame_errors_witness:
  "(''median'' \<noteq> ''equal tail'' \<and> ''median'' \<noteq> ''hpd''
      \<and> raises_ValueError (get_data_frame rank_quantile crab_posterior ''median'' (1 / 2)))
   \<and> (\<not> (0 < (2 :: real) \<and> (2 :: real) < 1)
      \<and> AnalysisResults_init crab (Arr2 1 [[Fin 1], [Fin 2], [Fin 3]]) [] ''Bayesian''
          = Inr crab_posterior
      \<and> free_parameters crab \<noteq> []
      \<and> raises_ValueError (get_data_frame rank_quantile crab_posterior ''hpd'' 2))
   \<and> (0 < (1 / 2 :: real) \<and> (1 / 2 :: real) < 1
      \<and> distinct (map path (free_parameters crab))
      \<and> get_data_frame rank_quantile crab_posterior ''hpd'' (1 / 2) =
          Inr [\<lparr>df_index = ''crab.spectrum.main.Powerlaw.K'', df_value = Fin 1,
                df_negative_error = Fin 0, df_positive_error = Fin 2, df_error = Fin 1,
                df_unit = ''1 / (cm2 keV s)''\<rparr>])"
proof -
  note init = crab_posterior_init
  have ne: "free_parameters crab \<noteq> []" and d: "distinct (map path (free_parameters crab))"
    by (simp_all add: crab_def)
  have q1: "rank_quantile [Fin 1, Fin 2, Fin 3] ((1 - 1 / 2) / 2) = Fin 1"
    and q2: "rank_quantile [Fin 1, Fin 2, Fin 3] (1 - (1 - 1 / 2) / 2) = Fin 3"
    by (simp_all add: rank_quantile_def)
  note th1 = data_frame_errors [of "''median''" rank_quantile crab_posterior "1 / 2" crab
      1 "[[Fin 1], [Fin 2], [Fin 3]]" "[]" "''Bayesian''" "Arr2 1 [[Fin 1], [Fin 2], [Fin 3]]"]
  note th2 = data_frame_errors [of "''hpd''" rank_quantile crab_posterior 2 crab
      1 "[[Fin 1], [Fin 2], [Fin 3]]" "[]" "''Bayesian''" "Arr2 1 [[Fin 1], [Fin 2], [Fin 3]]"]
  have a: "raises_ValueError (get_data_frame rank_quantile crab_posterior ''median'' (1 / 2))"
    using th1 by simp
  have b: "raises_ValueError (get_data_frame rank_quantile crab_posterior ''hpd'' 2)"
    using th2 init ne by auto
  have c: "get_data_frame rank_quantile crab_posterior ''hpd'' (1 / 2) =
      Inr (map (equal_tail_row rank_quantile crab [[Fin 1], [Fin 2], [Fin 3]] (1 / 2))
             [0..<length (free_parameters crab)])"
    using th1 init d by auto
  have "map (equal_tail_row rank_quantile crab [[Fin 1], [Fin 2], [Fin 3]] (1 / 2))
             [0..<length (free_parameters crab)]
      = [\<lparr>df_index = ''crab.spectrum.main.Powerlaw.K'', df_value = Fin 1,
                df_negative_error = Fin 0, df_positive_error = Fin 2, df_error = Fin 1,
                df_unit = ''1 / (cm2 keV s)''\<rparr>]"
    using q1 q2 by (simp add: crab_def equal_tail_row_def Let_def round64_small)
  with a b c init ne d show ?thesis by simp
qed


section \<open>The encoding of a column\<close>

text \<open>
  Source: \<^verbatim>\<open>src/threeML/io/fits_file.py\<close>, the loop of \<^verbatim>\<open>FITSExtension.__init__\<close>
  (lines 100--176).
\<close>

subsection \<open>numpy types and the table of FITS codes\<close>

datatype np_type =
    Int8 | Int16 | Int32 | Int64 | UInt8 | UInt16 | UInt32 | UInt64
  | Float16 | Float32 | Float64 | Complex128 | NpBool | NpStr | NpObject

text \<open>\<^verbatim>\<open>_NUMPY_TO_FITS_CODE\<close>; a type that is not a key raises KeyError.\<close>

fun NUMPY_TO_FITS_CODE :: "np_type \<Rightarrow> string option" where
  "NUMPY_TO_FITS_CODE Int16 = Some ''I''"
| "NUMPY_TO_FITS_CODE Int32 = Some ''J''"
| "NUMPY_TO_FITS_CODE Int64 = Some ''K''"
| "NUMPY_TO_FITS_CODE UInt16 = Some ''U''"
| "NUMPY_TO_FITS_CODE UInt32 = Some ''V''"
| "NUMPY_TO_FITS_CODE Float32 = Some ''E''"
| "NUMPY_TO_FITS_CODE Float64 = Some ''D''"
| "NUMPY_TO_FITS_CODE t = None"

fun type_name :: "np_type \<Rightarrow> string" where
  "type_name Int8 = ''numpy.int8''"
| "type_name Int16 = ''numpy.int16''"
| "type_name Int32 = ''numpy.int32''"
| "type_name Int64 = ''numpy.int64''"
| "type_name UInt8 = ''numpy.uint8''"
| "type_name UInt16 = ''numpy.uint16''"
| "type_name UInt32 = ''numpy.uint32''"
| "type_name UInt64 = ''numpy.uint64''"
| "type_name Float16 = ''numpy.float16''"
| "type_name Float32 = ''numpy.float32''"
| "type_name Float64 = ''numpy.float64''"
| "type_name Complex128 = ''numpy.complex128''"
| "type_name NpBool = ''numpy.bool_''"
| "type_name NpStr = ''numpy.string_''"
| "type_name NpObject = ''numpy.object_''"

text \<open>\<^verbatim>\<open>"%s" % col_type\<close>, the way Python 2 prints a type.\<close>

definition type_repr :: "np_type \<Rightarrow> string" where
  "type_repr t = ''<type '' @ [quote1] @ type_name t @ [quote1] @ ''>''"

subsection \<open>The elements of a column\<close>

text \<open>
  What the tests of the loop tell apart: an astropy quantity (the numpy type of its
  number, the number, and its unit as text), a string, a scalar that is not a string
  (with the numpy type \<^verbatim>\<open>np.array\<close> gives it), a list, a numpy array, and any other
  object.
\<close>

datatype pyvalue =
    Quantity np_type pyfloat string
  | PyStr string
  | Scalar np_type pyfloat
  | PyList "pyvalue list"
  | NdArray "pyvalue list"
  | Opaque

text \<open>
  numpy, where the loop asks it about arbitrary objects: the type of
  \<^verbatim>\<open>np.array(x).dtype.type\<close>, or nothing when that raises, and whether
  \<^verbatim>\<open>np.array(xs, col_type)\<close> succeeds.
\<close>

record numpy =
  array_dtype :: "pyvalue \<Rightarrow> np_type option"
  can_coerce :: "pyvalue list \<Rightarrow> np_type \<Rightarrow> bool"

text \<open>\<^verbatim>\<open>len(x)\<close>, a TypeError on an object without a length.\<close>

fun len :: "pyvalue \<Rightarrow> nat option" where
  "len (PyStr s) = Some (length s)"
| "len (PyList xs) = Some (length xs)"
| "len (NdArray xs) = Some (length xs)"
| "len x = None"

text \<open>
  \<^verbatim>\<open>max(xs, key=len)\<close> on a list that is not empty: the first of the elements of the
  greatest length.
\<close>

fun max_by_len :: "(nat \<times> pyvalue) \<Rightarrow> (nat \<times> pyvalue) list \<Rightarrow> pyvalue" where
  "max_by_len (k, best) [] = best"
| "max_by_len (k, best) ((l, x) # rest) =
     (if l > k then max_by_len (l, x) rest else max_by_len (k, best) rest)"

definition py_max_key_len :: "pyvalue list \<Rightarrow> error + pyvalue" where
  "py_max_key_len xs =
     (case xs of
        [] \<Rightarrow> Inl (ValueError ''max() arg is an empty sequence'')
      | x # rest \<Rightarrow>
          (case those (map len xs) of
             None \<Rightarrow> Inl TypeError
           | Some ls \<Rightarrow> Inr (max_by_len (hd ls, x) (zip (tl ls) rest))))"

text \<open>\<^verbatim>\<open>"%i" % n\<close>\<close>

fun str_of_nat :: "nat \<Rightarrow> string" where
  "str_of_nat n =
     (if n < 10 then [char_of (48 + n)]
      else str_of_nat (n div 10) @ [char_of (48 + n mod 10)])"

declare str_of_nat.simps [simp del]

subsection \<open>The format and the unit of one column\<close>

definition lookup_code :: "np_type \<Rightarrow> error + string" where
  "lookup_code t =
     (case NUMPY_TO_FITS_CODE t of None \<Rightarrow> Inl (KeyError (type_repr t)) | Some c \<Rightarrow> Inr c)"

text \<open>The branch of a list or an array, \<open>xs\<close> being its elements.\<close>

definition array_column_format :: "numpy \<Rightarrow> string \<Rightarrow> pyvalue list \<Rightarrow> error + string" where
  "array_column_format np column_name xs =
     (case (case xs of [] \<Rightarrow> None | x # rest \<Rightarrow> array_dtype np x) of
        None \<Rightarrow> Inl (RuntimeError (''Could not understand type of column '' @ column_name))
      | Some col_type \<Rightarrow>
          if col_type = NpObject then Inl (AssertionError NoMessage)
          else if \<not> can_coerce np xs col_type
          then Inl (RuntimeError (''Column '' @ column_name
                      @ '' contain data which cannot be coerced to '' @ type_repr col_type))
          else (case lookup_code col_type of
                  Inl e \<Rightarrow> Inl e
                | Inr c \<Rightarrow> Inr (str_of_nat (length xs) @ c)))"

text \<open>
  The body of the loop up to the construction of the column: the format and the unit
  (\<^verbatim>\<open>None\<close> unless the first element is a quantity).
\<close>

definition column_format :: "numpy \<Rightarrow> string \<Rightarrow> pyvalue list
    \<Rightarrow> error + (string \<times> string option)" where
  "column_format np column_name column_data =
     (case column_data of
        [] \<Rightarrow> Inl IndexError
      | test_value # rest \<Rightarrow>
          (case test_value of
             Quantity t v u \<Rightarrow>
               (case lookup_code t of Inl e \<Rightarrow> Inl e | Inr c \<Rightarrow> Inr (c, Some u))
           | PyStr s \<Rightarrow>
               (case py_max_key_len column_data of
                  Inl e \<Rightarrow> Inl e
                | Inr longest \<Rightarrow>
                    (case len longest of
                       None \<Rightarrow> Inl TypeError
                     | Some max_string_length \<Rightarrow> Inr (str_of_nat max_string_length @ ''A'', None)))
           | Scalar t v \<Rightarrow>
               (case lookup_code t of Inl e \<Rightarrow> Inl e | Inr c \<Rightarrow> Inr (c, None))
           | PyList xs \<Rightarrow>
               (case array_column_format np column_name xs of
                  Inl e \<Rightarrow> Inl e | Inr f \<Rightarrow> Inr (f, None))
           | NdArray xs \<Rightarrow>
               (case array_column_format np column_name xs of
                  Inl e \<Rightarrow> Inl e | Inr f \<Rightarrow> Inr (f, None))
           | Opaque \<Rightarrow>
               Inl (RuntimeError (''Column '' @ column_name
                      @ '' in dataframe contains objects which are not strings''))))"

text \<open>A schema error that names the column: a RuntimeError with the name in its message.\<close>

definition names_column :: "error + 'a \<Rightarrow> string \<Rightarrow> bool" where
  "names_column r column_name =
     (case r of Inl (RuntimeError msg) \<Rightarrow> sublist column_name msg | _ \<Rightarrow> False)"

text \<open>A column of strings.\<close>

fun is_str :: "pyvalue \<Rightarrow> bool" where
  "is_str (PyStr s) = True"
| "is_str x = False"


subsection \<open>The cases of the loop\<close>

lemma Max_insert_smaller:
  assumes "finite A" "k \<le> l"
  shows "Max (insert k (insert l A)) = Max (insert l A)"
proof -
  have "l \<le> Max (insert l A)" using assms(1) by simp
  with assms(2) have "k \<le> Max (insert l A)" by (rule order_trans)
  then have "max k (Max (insert l A)) = Max (insert l A)" by (rule max_absorb2)
  moreover have "Max (insert k (insert l A)) = max k (Max (insert l A))"
    using assms(1) by (intro Max_insert) simp_all
  ultimately show ?thesis by simp
qed

lemma max_by_len_Max:
  assumes "len best = Some k" "\<forall>(l, x) \<in> set zs. len x = Some l"
  shows "len (max_by_len (k, best) zs) = Some (Max (insert k (fst ` set zs)))"
  using assms
proof (induction zs arbitrary: k best)
  case Nil
  then show ?case by simp
next
  case (Cons z zs)
  obtain l x where z: "z = (l, x)" by (cases z)
  have fin: "finite (fst ` set zs)" by simp
  show ?case
  proof (cases "l > k")
    case True
    then have "Max (insert k (insert l (fst ` set zs))) = Max (insert l (fst ` set zs))"
      using fin by (intro Max_insert_smaller) simp_all
    with True Cons z show ?thesis by simp
  next
    case False
    then have "Max (insert l (insert k (fst ` set zs))) = Max (insert k (fst ` set zs))"
      using fin by (intro Max_insert_smaller) simp_all
    with False Cons z show ?thesis by (simp add: insert_commute)
  qed
qed

lemmas sublist_after_Column =
  sublist_appendI [of n "''Column ''" q, unfolded append_Cons append_Nil] for n q

lemmas sublist_after_understand =
  sublist_append_leftI [of n "''Could not understand type of column ''",
    unfolded append_Cons append_Nil] for n

lemma those_len_strings: "those (map len (map PyStr ss)) = Some (map length ss)"
  by (induction ss) simp_all

lemma string_column_width:
  "column_format np column_name (map PyStr (s # ss))
     = Inr (str_of_nat (Max (length ` set (s # ss))) @ ''A'', None)"
proof -
  have "len (max_by_len (length s, PyStr s) (zip (map length ss) (map PyStr ss)))
      = Some (Max (insert (length s) (fst ` set (zip (map length ss) (map PyStr ss)))))"
    by (rule max_by_len_Max) (auto simp: zip_map_map zip_same)
  moreover have "fst ` set (zip (map length ss) (map PyStr ss)) = length ` set ss"
    by (induction ss) auto
  ultimately have "len (max_by_len (length s, PyStr s) (zip (map length ss) (map PyStr ss)))
      = Some (Max (length ` set (s # ss)))"
    by simp
  then show ?thesis
    using those_len_strings [of "s # ss"]
    by (simp add: column_format_def py_max_key_len_def)
qed

lemma array_column_cases:
  "(xs = [] \<or> array_dtype np (hd xs) = None \<longrightarrow>
       names_column (array_column_format np column_name xs) column_name)
   \<and> (xs \<noteq> [] \<and> array_dtype np (hd xs) = Some NpObject \<longrightarrow>
       array_column_format np column_name xs = Inl (AssertionError NoMessage))
   \<and> (xs \<noteq> [] \<and> array_dtype np (hd xs) = Some ct \<and> ct \<noteq> NpObject \<and> \<not> can_coerce np xs ct \<longrightarrow>
       names_column (array_column_format np column_name xs) column_name)
   \<and> (xs \<noteq> [] \<and> array_dtype np (hd xs) = Some ct \<and> ct \<noteq> NpObject \<and> can_coerce np xs ct
        \<and> NUMPY_TO_FITS_CODE ct = Some c \<longrightarrow>
       array_column_format np column_name xs = Inr (str_of_nat (length xs) @ c))"
  by (cases xs)
    (auto simp: array_column_format_def names_column_def lookup_code_def
      sublist_after_Column sublist_after_understand)

lemma names_column_map:
  "names_column r n \<Longrightarrow> names_column (case r of Inl e \<Rightarrow> Inl e | Inr f \<Rightarrow> Inr (f, None)) n"
  by (auto simp: names_column_def split: sum.splits error.splits)

text \<open>
  Claim C4, as amended. The encoding of a column is decided from its first element alone,
  but for the width of a column of strings, in this order: a quantity whose numeric type
  has a FITS code gives that code with the unit of the quantity; a string gives the
  format of width the length of the longest entry of the whole column; a scalar number
  whose type has a FITS code gives that code; for a list or an array, an empty one, one
  whose first element numpy cannot type, and one that cannot be coerced to the type of
  its first element fail with a RuntimeError that names the column, one whose first
  element has the object type fails with a bare assertion error that does not name the
  column, and otherwise the format is the number of elements followed by the code;
  anything else fails with a RuntimeError that names the column.
\<close>

theorem column_encoding:
  "(NUMPY_TO_FITS_CODE t = Some c \<longrightarrow>
      column_format np column_name (Quantity t v u # rest) = Inr (c, Some u))
   \<and> column_format np column_name (map PyStr (s # ss))
       = Inr (str_of_nat (Max (length ` set (s # ss))) @ ''A'', None)
   \<and> (NUMPY_TO_FITS_CODE t = Some c \<longrightarrow>
      column_format np column_name (Scalar t v # rest) = Inr (c, None))
   \<and> (a = PyList xs \<or> a = NdArray xs \<longrightarrow>
        (xs = [] \<or> array_dtype np (hd xs) = None \<longrightarrow>
           names_column (column_format np column_name (a # rest)) column_name)
      \<and> (xs \<noteq> [] \<and> array_dtype np (hd xs) = Some NpObject \<longrightarrow>
           column_format np column_name (a # rest) = Inl (AssertionError NoMessage))
      \<and> (xs \<noteq> [] \<and> array_dtype np (hd xs) = Some ct \<and> ct \<noteq> NpObject
            \<and> \<not> can_coerce np xs ct \<longrightarrow>
           names_column (column_format np column_name (a # rest)) column_name)
      \<and> (xs \<noteq> [] \<and> array_dtype np (hd xs) = Some ct \<and> ct \<noteq> NpObject
            \<and> can_coerce np xs ct \<and> NUMPY_TO_FITS_CODE ct = Some c \<longrightarrow>
           column_format np column_name (a # rest) = Inr (str_of_nat (length xs) @ c, None)))
   \<and> names_column (column_format np column_name (Opaque # rest)) column_name
   \<and> (\<not> is_str a \<longrightarrow>
      column_format np column_name (a # rest) = column_format np column_name (a # rest'))"
proof -
  have arr: "column_format np column_name (a # rest)
      = (case array_column_format np column_name xs of Inl e \<Rightarrow> Inl e | Inr f \<Rightarrow> Inr (f, None))"
    if "a = PyList xs \<or> a = NdArray xs"
    using that by (auto simp: column_format_def)
  have c1: "column_format np column_name (Quantity t v u # rest) = Inr (c, Some u)"
    if "NUMPY_TO_FITS_CODE t = Some c"
    using that by (simp add: column_format_def lookup_code_def)
  have c3: "column_format np column_name (Scalar t v # rest) = Inr (c, None)"
    if "NUMPY_TO_FITS_CODE t = Some c"
    using that by (simp add: column_format_def lookup_code_def)
  have c4: "(xs = [] \<or> array_dtype np (hd xs) = None \<longrightarrow>
           names_column (column_format np column_name (a # rest)) column_name)
      \<and> (xs \<noteq> [] \<and> array_dtype np (hd xs) = Some NpObject \<longrightarrow>
           column_format np column_name (a # rest) = Inl (AssertionError NoMessage))
      \<and> (xs \<noteq> [] \<and> array_dtype np (hd xs) = Some ct \<and> ct \<noteq> NpObject
            \<and> \<not> can_coerce np xs ct \<longrightarrow>
           names_column (column_format np column_name (a # rest)) column_name)
      \<and> (xs \<noteq> [] \<and> array_dtype np (hd xs) = Some ct \<and> ct \<noteq> NpObject
            \<and> can_coerce np xs ct \<and> NUMPY_TO_FITS_CODE ct = Some c \<longrightarrow>
           column_format np column_name (a # rest) = Inr (str_of_nat (length xs) @ c, None))"
    if "a = PyList xs \<or> a = NdArray xs"
    unfolding arr [OF that]
    using array_column_cases [of xs np column_name ct c]
    by (auto intro: names_column_map)
  have c5: "names_column (column_format np column_name (Opaque # rest)) column_name"
    by (simp add: column_format_def names_column_def sublist_after_Column)
  have c6: "column_format np column_name (a # rest) = column_format np column_name (a # rest')"
    if "\<not> is_str a"
    using that by (cases a) (simp_all add: column_format_def)
  from c1 c3 c4 c5 c6 string_column_width [of np column_name s ss]
  show ?thesis by blast
qed


text \<open>
  numpy on the simplest objects, for the examples: the type of a number is its own, a
  string gives the string type and any other object the object type; a list can be
  coerced to a numeric type when all its elements are numbers.
\<close>

fun is_number :: "pyvalue \<Rightarrow> bool" where
  "is_number (Scalar t v) = True"
| "is_number x = False"

fun plain_dtype :: "pyvalue \<Rightarrow> np_type option" where
  "plain_dtype (Scalar t v) = Some t"
| "plain_dtype (Quantity t v u) = Some t"
| "plain_dtype (PyStr s) = Some NpStr"
| "plain_dtype x = Some NpObject"

definition plain_numpy :: numpy where
  "plain_numpy = \<lparr>array_dtype = plain_dtype, can_coerce = (\<lambda>xs t. list_all is_number xs)\<rparr>"

theorem column_encoding_witness:
  "NUMPY_TO_FITS_CODE Float64 = Some ''D''
   \<and> column_format plain_numpy ''VALUE'' [Quantity Float64 (Fin 1) ''keV'', Opaque]
       = Inr (''D'', Some ''keV'')
   \<and> column_format plain_numpy ''VALUE'' (map PyStr [''a.K'', ''b.index'', ''c''])
       = Inr (''7A'', None)
   \<and> column_format plain_numpy ''VALUE'' [Scalar Float64 (Fin 1), Opaque] = Inr (''D'', None)
   \<and> column_format plain_numpy ''VALUE''
        [NdArray [Scalar Float64 (Fin 1), Scalar Float64 (Fin 2)], Opaque] = Inr (''2D'', None)
   \<and> names_column (column_format plain_numpy ''VALUE'' [PyList [], Opaque]) ''VALUE''
   \<and> column_format plain_numpy ''VALUE'' [PyList [Opaque], Opaque]
       = Inl (AssertionError NoMessage)
   \<and> names_column (column_format plain_numpy ''VALUE''
        [PyList [Scalar Float64 (Fin 1), PyStr ''x''], Opaque]) ''VALUE''
   \<and> names_column (column_format plain_numpy ''VALUE'' [Opaque, Opaque]) ''VALUE''
   \<and> column_format plain_numpy ''VALUE'' [Scalar Float64 (Fin 1), Opaque]
       = column_format plain_numpy ''VALUE'' [Scalar Float64 (Fin 1), PyStr ''x'']"
proof -
  note th = column_encoding [where np = plain_numpy and column_name = "''VALUE''"
      and t = Float64 and c = "''D''" and v = "Fin 1" and u = "''keV''" and rest = "[Opaque]"
      and s = "''a.K''" and ss = "[''b.index'', ''c'']" and ct = Float64]
  note ok = th [where a = "NdArray [Scalar Float64 (Fin 1), Scalar Float64 (Fin 2)]"
      and xs = "[Scalar Float64 (Fin 1), Scalar Float64 (Fin 2)]"]
  note empty = th [where a = "PyList []" and xs = "[]"]
  note object = th [where a = "PyList [Opaque]" and xs = "[Opaque]"]
  note mixed = th [where a = "PyList [Scalar Float64 (Fin 1), PyStr ''x'']"
      and xs = "[Scalar Float64 (Fin 1), PyStr ''x'']"]
  note first = th [where a = "Scalar Float64 (Fin 1)" and rest' = "[PyStr ''x'']"]
  have w: "str_of_nat (Suc (Suc (Suc (Suc (Suc (Suc (Suc 0))))))) = ''7''"
    by code_simp
  have ns: "\<not> is_str (Scalar Float64 (Fin 1))"
    by simp
  have two: "str_of_nat (Suc (Suc 0)) = ''2''"
    by code_simp
  have 1: "column_format plain_numpy ''VALUE'' [Quantity Float64 (Fin 1) ''keV'', Opaque]
       = Inr (''D'', Some ''keV'')"
    using ok by simp
  have 2: "column_format plain_numpy ''VALUE'' (map PyStr [''a.K'', ''b.index'', ''c''])
       = Inr (''7A'', None)"
    using ok w by simp
  have 3: "column_format plain_numpy ''VALUE'' [Scalar Float64 (Fin 1), Opaque] = Inr (''D'', None)"
    using ok by simp
  have 4: "column_format plain_numpy ''VALUE''
        [NdArray [Scalar Float64 (Fin 1), Scalar Float64 (Fin 2)], Opaque] = Inr (''2D'', None)"
    using ok two by (simp add: plain_numpy_def)
  have 5: "names_column (column_format plain_numpy ''VALUE'' [PyList [], Opaque]) ''VALUE''"
    using empty by simp
  have 6: "column_format plain_numpy ''VALUE'' [PyList [Opaque], Opaque]
       = Inl (AssertionError NoMessage)"
    using object by (simp add: plain_numpy_def)
  have 7: "names_column (column_format plain_numpy ''VALUE''
        [PyList [Scalar Float64 (Fin 1), PyStr ''x''], Opaque]) ''VALUE''"
    using mixed by (simp add: plain_numpy_def)
  have 8: "names_column (column_format plain_numpy ''VALUE'' [Opaque, Opaque]) ''VALUE''"
    using ok by simp
  have 9: "column_format plain_numpy ''VALUE'' [Scalar Float64 (Fin 1), Opaque]
       = column_format plain_numpy ''VALUE'' [Scalar Float64 (Fin 1), PyStr ''x'']"
    using first ns by blast
  show ?thesis by (intro conjI 1 2 3 4 5 6 7 8 9) simp
qed

text \<open>
  The claim as stated fails for a column whose first element is a list of an opaque
  object: \<^verbatim>\<open>assert col_type != np.object and col_type != np.object_\<close> raises an
  AssertionError without a message, so the failure does not name the column.
\<close>

theorem column_encoding_counterexample:
  "array_dtype plain_numpy Opaque = Some NpObject
   \<and> column_format plain_numpy ''COVARIANCE'' [PyList [Opaque]] = Inl (AssertionError NoMessage)
   \<and> \<not> names_column (column_format plain_numpy ''COVARIANCE'' [PyList [Opaque]]) ''COVARIANCE''"
  by (simp add: column_format_def array_column_format_def plain_numpy_def names_column_def)


section \<open>The container: writing and reading results\<close>

text \<open>
  Source: \<^verbatim>\<open>analysis_results.py\<close>, lines 49--152 (the reader) and 155--312 (the
  writer), and \<^verbatim>\<open>fits_file.py\<close>. The FITS library is an external collaborator, taken
  as an ideal store: an opened file is the list of the HDUs that were written, an HDU is
  the cards of its header in order (comments left out) and the columns of its table, and
  what is read is what was written. The limits of the format (the length of keywords,
  the printing of floats in cards, the padding of strings) are not modelled.
\<close>

subsection \<open>Headers, tables and files\<close>

record fits_column =
  col_name :: string
  col_format :: string
  col_unit :: "string option"
  col_array :: "pyvalue list"

record hdu =
  header :: "(string \<times> pyobj) list"
  columns :: "fits_column list"

text \<open>\<^verbatim>\<open>header.get(key)\<close> is \<^verbatim>\<open>None\<close> without the key.\<close>

definition header_get :: "(string \<times> pyobj) list \<Rightarrow> string \<Rightarrow> pyobj" where
  "header_get h k = (case map_of h k of None \<Rightarrow> PNone | Some v \<Rightarrow> v)"

text \<open>\<^verbatim>\<open>header.set(key, value)\<close> updates the card of the key, or appends one.\<close>

fun header_set :: "(string \<times> pyobj) list \<Rightarrow> string \<Rightarrow> pyobj \<Rightarrow> (string \<times> pyobj) list" where
  "header_set [] k v = [(k, v)]"
| "header_set ((k', v') # h) k v =
     (if k' = k then (k, v) # h else (k', v') # header_set h k v)"

text \<open>
  The name and the version of an HDU, from \<^verbatim>\<open>EXTNAME\<close> and \<^verbatim>\<open>EXTVER\<close>; the version
  is 1 by default.
\<close>

definition hdu_name :: "hdu \<Rightarrow> string" where
  "hdu_name u = (case header_get (header u) ''EXTNAME'' of PStr n \<Rightarrow> n | _ \<Rightarrow> [])"

definition hdu_ver :: "hdu \<Rightarrow> int" where
  "hdu_ver u = (case header_get (header u) ''EXTVER'' of PInt i \<Rightarrow> i | _ \<Rightarrow> 1)"

text \<open>\<^verbatim>\<open>f[name, ver]\<close> and \<^verbatim>\<open>f[name]\<close>: a KeyError without such an HDU.\<close>

definition getitem_name_ver :: "hdu list \<Rightarrow> string \<Rightarrow> int \<Rightarrow> error + hdu" where
  "getitem_name_ver f n v =
     (case filter (\<lambda>u. hdu_name u = n \<and> hdu_ver u = v) f of
        [] \<Rightarrow> Inl (KeyError n)
      | u # us \<Rightarrow> Inr u)"

definition getitem_name :: "hdu list \<Rightarrow> string \<Rightarrow> error + hdu" where
  "getitem_name f n =
     (case filter (\<lambda>u. hdu_name u = n) f of
        [] \<Rightarrow> Inl (KeyError n)
      | u # us \<Rightarrow> Inr u)"

text \<open>
  A column as a numpy array of floats, for \<^verbatim>\<open>data.field(name)\<close>: a vector for a column
  of numbers, a matrix for a column of rows of numbers of one length. A column of
  anything else is not an array of floats (TypeError).
\<close>

fun scalar_of :: "pyvalue \<Rightarrow> pyfloat option" where
  "scalar_of (Scalar t v) = Some v"
| "scalar_of (Quantity t v u) = Some v"
| "scalar_of x = None"

fun row_of :: "pyvalue \<Rightarrow> pyfloat list option" where
  "row_of (NdArray xs) = those (map scalar_of xs)"
| "row_of (PyList xs) = those (map scalar_of xs)"
| "row_of x = None"

definition to_ndarray :: "pyvalue list \<Rightarrow> error + ndarray" where
  "to_ndarray xs =
     (case those (map scalar_of xs) of
        Some vs \<Rightarrow> Inr (Arr1 vs)
      | None \<Rightarrow>
          (case those (map row_of xs) of
             None \<Rightarrow> Inl TypeError
           | Some rs \<Rightarrow>
               if list_all (\<lambda>r. length r = length (hd rs)) rs
               then Inr (Arr2 (length (hd rs)) rs)
               else Inl (ValueError ''rows of different lengths'')))"

definition field :: "hdu \<Rightarrow> string \<Rightarrow> error + ndarray" where
  "field u n =
     (case find (\<lambda>c. col_name c = n) (columns u) of
        None \<Rightarrow> Inl (KeyError n)
      | Some c \<Rightarrow> to_ndarray (col_array c))"

text \<open>The rows of an array as the elements of a column, each a 64-bit float.\<close>

fun array_rows :: "ndarray \<Rightarrow> pyvalue list" where
  "array_rows (Arr0 v) = []"
| "array_rows (Arr1 xs) = map (Scalar Float64) xs"
| "array_rows (Arr2 c rs) = map (\<lambda>r. NdArray (map (Scalar Float64) r)) rs"

subsection \<open>The other collaborators\<close>

text \<open>
  numpy, the serialisation of the model (\<^verbatim>\<open>my_yaml.dump(model.to_dict_with_types())\<close>
  and \<^verbatim>\<open>ModelParser(model_dict=my_yaml.load(s)).get_model()\<close>), \<^verbatim>\<open>float\<close> and
  \<^verbatim>\<open>str\<close> on strings and floats, the sampler, the quantile, the version of the
  package, the clock, and whether \<^verbatim>\<open>u.Unit\<close> accepts a text.
\<close>

record env =
  e_numpy :: numpy
  e_dump_model :: "model \<Rightarrow> string"
  e_parse_model :: "string \<Rightarrow> error + model"
  e_parse_float :: "string \<Rightarrow> pyfloat option"
  e_str_float :: "pyfloat \<Rightarrow> string"
  e_multivariate_normal :: "pyfloat list \<Rightarrow> ndarray \<Rightarrow> nat \<Rightarrow> pyfloat list list"
  e_quantile :: "pyfloat list \<Rightarrow> real \<Rightarrow> pyfloat"
  e_version :: string
  e_now :: string
  e_parse_unit :: "string \<Rightarrow> bool"

subsection \<open>Integers as text\<close>

definition str_of_int :: "int \<Rightarrow> string" where
  "str_of_int i = (if i < 0 then CHR ''-'' # str_of_nat (nat (- i)) else str_of_nat (nat i))"

text \<open>
  \<^verbatim>\<open>int(s)\<close> on a text without blanks: an optional sign and digits, a ValueError
  otherwise.
\<close>

definition is_digit :: "char \<Rightarrow> bool" where
  "is_digit c = (48 \<le> (of_char c :: nat) \<and> (of_char c :: nat) \<le> 57)"

definition digits_value :: "string \<Rightarrow> nat option" where
  "digits_value ds =
     (if ds \<noteq> [] \<and> list_all is_digit ds
      then Some (foldl (\<lambda>a c. 10 * a + (of_char c - 48)) 0 ds)
      else None)"

fun py_int :: "string \<Rightarrow> int option" where
  "py_int [] = None"
| "py_int (c # cs) =
     (if c = CHR ''-'' then map_option (\<lambda>n. - int n) (digits_value cs)
      else if c = CHR ''+'' then map_option int (digits_value cs)
      else map_option int (digits_value (c # cs)))"

text \<open>\<^verbatim>\<open>float(x)\<close> and \<^verbatim>\<open>str(x)\<close> on the value of a card.\<close>

definition py_float :: "env \<Rightarrow> pyobj \<Rightarrow> error + pyfloat" where
  "py_float e x =
     (case x of
        PFloat v \<Rightarrow> Inr v
      | PInt i \<Rightarrow> Inr (Fin (real_of_int i))
      | PStr t \<Rightarrow>
          (case e_parse_float e t of
             None \<Rightarrow> Inl (ValueError ''could not convert string to float'')
           | Some v \<Rightarrow> Inr v)
      | PNone \<Rightarrow> Inl TypeError)"

definition py_str :: "env \<Rightarrow> pyobj \<Rightarrow> string" where
  "py_str e x =
     (case x of
        PStr t \<Rightarrow> t
      | PFloat v \<Rightarrow> e_str_float e v
      | PInt i \<Rightarrow> str_of_int i
      | PNone \<Rightarrow> ''None'')"

text \<open>\<^verbatim>\<open>d[k] = v\<close> on an ordered dictionary.\<close>

fun dict_set :: "('k \<times> 'v) list \<Rightarrow> 'k \<Rightarrow> 'v \<Rightarrow> ('k \<times> 'v) list" where
  "dict_set [] k v = [(k, v)]"
| "dict_set ((k', v') # d) k v =
     (if k' = k then (k, v) # d else (k', v') # dict_set d k v)"

subsection \<open>The reader\<close>

text \<open>
  The loop of \<^verbatim>\<open>_load_one_results\<close> over \<^verbatim>\<open>header.keys()\<close>;
  \<^verbatim>\<open>key.find("STAT") == 0\<close> holds when the key starts with \<^verbatim>\<open>STAT\<close>.
\<close>

fun gather_statistics :: "env \<Rightarrow> (string \<times> pyobj) list \<Rightarrow> string list
    \<Rightarrow> (pyobj \<times> pyfloat) list \<Rightarrow> error + (pyobj \<times> pyfloat) list" where
  "gather_statistics e h [] statistic_values = Inr statistic_values"
| "gather_statistics e h (key # keys) statistic_values =
     (if prefix ''STAT'' key then
        (case py_int (replace ''STAT'' [] key) of
           None \<Rightarrow> Inl (ValueError ''invalid literal for int()'')
         | Some ident \<Rightarrow>
             (case py_float e (header_get h key) of
                Inl err \<Rightarrow> Inl err
              | Inr v \<Rightarrow>
                  gather_statistics e h keys
                    (dict_set statistic_values (header_get h (''PN'' @ str_of_int ident)) v)))
      else gather_statistics e h keys statistic_values)"

text \<open>
  \<^verbatim>\<open>_load_one_results\<close>. It returns a result, or \<^verbatim>\<open>None\<close> when it falls off its
  end, with the warnings of the constructor. A \<^verbatim>\<open>MODEL\<close> that is not a string has no
  \<^verbatim>\<open>replace\<close> (AttributeError).
\<close>

definition load_one_results :: "env \<Rightarrow> hdu \<Rightarrow> error + (results option \<times> warning list)" where
  "load_one_results e fits_extension =
     (let a_type = header_get (header fits_extension) ''RESUTYPE''
      in case header_get (header fits_extension) ''MODEL'' of
           PStr serialized \<Rightarrow>
             (case e_parse_model e (escape_back_yaml_from_fits serialized) of
                Inl err \<Rightarrow> Inl err
              | Inr fitted_model \<Rightarrow>
                  (case gather_statistics e (header fits_extension)
                          (map fst (header fits_extension)) [] of
                     Inl err \<Rightarrow> Inl err
                   | Inr statistic_values \<Rightarrow>
                       if a_type = PStr ''MLE'' then
                         (case field fits_extension ''COVARIANCE'' of
                            Inl err \<Rightarrow> Inl err
                          | Inr c \<Rightarrow>
                              (case MLEResults_init (e_multivariate_normal e) fitted_model
                                      (T c) statistic_values default_n_samples of
                                 Inl err \<Rightarrow> Inl err
                               | Inr (r, w) \<Rightarrow> Inr (Some r, w)))
                       else if a_type = PStr ''Bayesian'' then
                         (case field fits_extension ''SAMPLES'' of
                            Inl err \<Rightarrow> Inl err
                          | Inr smp \<Rightarrow>
                              (case BayesianResults_init fitted_model (T smp)
                                      statistic_values of
                                 Inl err \<Rightarrow> Inl err
                               | Inr r \<Rightarrow> Inr (Some r, [])))
                       else Inr (None, [])))
         | _ \<Rightarrow> Inl AttributeError)"

text \<open>
  A set of results (\<^verbatim>\<open>AnalysisResultsSet\<close>): the list it was built from and, once
  \<^verbatim>\<open>characterize_sequence\<close> has run, the name and the columns of the sequence.
\<close>

record analysis_results_set =
  set_results :: "results option list"
  sequence :: "(string \<times> (string \<times> pyvalue list) list) option"

text \<open>The loop of the assertions of \<^verbatim>\<open>characterize_sequence\<close>.\<close>

fun check_columns :: "nat \<Rightarrow> nat \<Rightarrow> (nat \<times> string \<times> pyvalue list) list \<Rightarrow> error option" where
  "check_columns n_columns n_results [] = None"
| "check_columns n_columns n_results ((i, this_tuple) # rest) =
     (if length (snd this_tuple) \<noteq> n_results
      then Some (AssertionError (ColumnWrongLength i n_columns n_results))
      else check_columns n_columns n_results rest)"

definition characterize_sequence :: "env \<Rightarrow> analysis_results_set \<Rightarrow> pyobj
    \<Rightarrow> (string \<times> pyvalue list) list \<Rightarrow> error + analysis_results_set" where
  "characterize_sequence e self n data_tuple =
     (case check_columns (length data_tuple) (length (set_results self))
             (enumerate 0 data_tuple) of
        Some err \<Rightarrow> Inl err
      | None \<Rightarrow> Inr (self\<lparr>sequence := Some (py_str e n, data_tuple)\<rparr>))"

text \<open>\<^verbatim>\<open>record[column.name] * u.Unit(column.unit)\<close>\<close>

fun with_unit :: "string \<Rightarrow> pyvalue \<Rightarrow> pyvalue option" where
  "with_unit u (Scalar t v) = Some (Quantity t v u)"
| "with_unit u x = None"

definition times_unit :: "env \<Rightarrow> pyvalue list \<Rightarrow> string \<Rightarrow> error + pyvalue list" where
  "times_unit e xs u =
     (if \<not> e_parse_unit e u then Inl (ValueError u)
      else case those (map (with_unit u) xs) of None \<Rightarrow> Inl TypeError | Some qs \<Rightarrow> Inr qs)"

fun sequence_columns :: "env \<Rightarrow> fits_column list \<Rightarrow> error + (string \<times> pyvalue list) list" where
  "sequence_columns e [] = Inr []"
| "sequence_columns e (column # rest) =
     (case (case col_unit column of
              None \<Rightarrow> Inr (col_array column)
            | Some u \<Rightarrow> times_unit e (col_array column) u) of
        Inl err \<Rightarrow> Inl err
      | Inr d \<Rightarrow>
          (case sequence_columns e rest of
             Inl err \<Rightarrow> Inl err
           | Inr data_list \<Rightarrow> Inr ((col_name column, d) # data_list)))"

text \<open>The loop of \<^verbatim>\<open>_load_set_of_results\<close> over \<^verbatim>\<open>range(n_results)\<close>.\<close>

fun load_all :: "env \<Rightarrow> hdu list \<Rightarrow> nat list \<Rightarrow> error + (results option list \<times> warning list)" where
  "load_all e f [] = Inr ([], [])"
| "load_all e f (i # rest) =
     (case getitem_name_ver f ''ANALYSIS_RESULTS'' (int i + 1) of
        Inl err \<Rightarrow> Inl err
      | Inr u \<Rightarrow>
          (case load_one_results e u of
             Inl err \<Rightarrow> Inl err
           | Inr (r, w) \<Rightarrow>
               (case load_all e f rest of
                  Inl err \<Rightarrow> Inl err
                | Inr (rs, ws) \<Rightarrow> Inr (r # rs, w @ ws))))"

definition load_set_of_results :: "env \<Rightarrow> hdu list \<Rightarrow> nat
    \<Rightarrow> error + (analysis_results_set \<times> warning list)" where
  "load_set_of_results e open_fits_file n_results =
     (case load_all e open_fits_file [0..<n_results] of
        Inl err \<Rightarrow> Inl err
      | Inr (all_results, ws) \<Rightarrow>
          (case getitem_name open_fits_file ''SEQUENCE'' of
             Inl err \<Rightarrow> Inl err
           | Inr sequence_ext \<Rightarrow>
               (case sequence_columns e (columns sequence_ext) of
                  Inl err \<Rightarrow> Inl err
                | Inr data_list \<Rightarrow>
                    (case characterize_sequence e
                            \<lparr>set_results = all_results, sequence = None\<rparr>
                            (header_get (header sequence_ext) ''SEQ_TYPE'') data_list of
                       Inl err \<Rightarrow> Inl err
                     | Inr this_set \<Rightarrow> Inr (this_set, ws)))))"

text \<open>What \<^verbatim>\<open>load_analysis_results\<close> returns: one result (or \<^verbatim>\<open>None\<close>), or a set.\<close>

datatype loaded = Single "results option" | ResultSet analysis_results_set

definition load_analysis_results :: "env \<Rightarrow> hdu list \<Rightarrow> error + (loaded \<times> warning list)" where
  "load_analysis_results e f =
     (let n_results = length (filter (\<lambda>x. x = ''ANALYSIS_RESULTS'') (map hdu_name f))
      in if n_results = 1 then
           (case getitem_name_ver f ''ANALYSIS_RESULTS'' 1 of
              Inl err \<Rightarrow> Inl err
            | Inr u \<Rightarrow>
                (case load_one_results e u of
                   Inl err \<Rightarrow> Inl err
                 | Inr (r, w) \<Rightarrow> Inr (Single r, w)))
         else
           (case load_set_of_results e f n_results of
              Inl err \<Rightarrow> Inl err
            | Inr (s, w) \<Rightarrow> Inr (ResultSet s, w)))"


subsection \<open>Unknown tags and files without results\<close>

text \<open>Collaborators for the examples; the one model they serialise is \<open>crab\<close>.\<close>

definition toy_env :: env where
  "toy_env =
     \<lparr>e_numpy = plain_numpy,
       e_dump_model = (\<lambda>m. ''crab: {K: 1}''),
       e_parse_model = (\<lambda>t. if t = ''crab: {K: 1}'' then Inr crab
                              else Inl (ValueError ''not a model'')),
       e_parse_float = (\<lambda>t. None),
       e_str_float = (\<lambda>v. ''nan''),
       e_multivariate_normal = shifted_draws,
       e_quantile = rank_quantile,
       e_version = ''1.0'',
       e_now = ''2017-01-01T00:00:00'',
       e_parse_unit = (\<lambda>u. True)\<rparr>"

definition primary_hdu :: hdu where
  "primary_hdu = \<lparr>header = [(''DATE'', PStr ''2017-01-01T00:00:00''), (''ORIGIN'', PStr ''3ML'')],
                  columns = []\<rparr>"

definition empty_sequence_ext :: hdu where
  "empty_sequence_ext =
     \<lparr>header = [(''EXTNAME'', PStr ''SEQUENCE''), (''ORIGIN'', PStr ''3ML''),
                (''SEQ_TYPE'', PStr ''unspecified'')],
       columns = [\<lparr>col_name = ''VALUE'', col_format = ''K'', col_unit = None, col_array = []\<rparr>]\<rparr>"

text \<open>
  Claim C3, on the code. For an extension whose analysis-type tag is neither "MLE" nor
  "Bayesian", and whose model and statistics are read without an error, the
  reconstruction raises nothing: \<^verbatim>\<open>_load_one_results\<close> falls off the end of its
  \<^verbatim>\<open>if\<close>/\<^verbatim>\<open>elif\<close> and returns \<^verbatim>\<open>None\<close>. The claim asks for a fatal error there.
\<close>

theorem unknown_analysis_type:
  assumes "header_get (header u) ''MODEL'' = PStr t"
    and "e_parse_model e (escape_back_yaml_from_fits t) = Inr m"
    and "gather_statistics e (header u) (map fst (header u)) [] = Inr sv"
    and "header_get (header u) ''RESUTYPE'' \<noteq> PStr ''MLE''"
    and "header_get (header u) ''RESUTYPE'' \<noteq> PStr ''Bayesian''"
  shows "load_one_results e u = Inr (None, [])"
  using assms by (simp add: load_one_results_def)

definition nested_sampling_ext :: hdu where
  "nested_sampling_ext =
     \<lparr>header = [(''EXTNAME'', PStr ''ANALYSIS_RESULTS''), (''MODEL'', PStr ''crab: _PARO_K: 1_PARC_''),
                (''ORIGIN'', PStr ''3ML''), (''RESUTYPE'', PStr ''Nested''), (''EXTVER'', PInt 1)],
       columns = []\<rparr>"

lemma nested_model: "escape_back_yaml_from_fits ''crab: _PARO_K: 1_PARC_'' = ''crab: {K: 1}''"
  by code_simp

theorem unknown_analysis_type_witness:
  "header_get (header nested_sampling_ext) ''MODEL'' = PStr ''crab: _PARO_K: 1_PARC_''
   \<and> e_parse_model toy_env (escape_back_yaml_from_fits ''crab: _PARO_K: 1_PARC_'') = Inr crab
   \<and> gather_statistics toy_env (header nested_sampling_ext)
        (map fst (header nested_sampling_ext)) [] = Inr []
   \<and> header_get (header nested_sampling_ext) ''RESUTYPE'' = PStr ''Nested''
   \<and> load_one_results toy_env nested_sampling_ext = Inr (None, [])
   \<and> load_analysis_results toy_env [primary_hdu, nested_sampling_ext] = Inr (Single None, [])"
proof -
  have a: "header_get (header nested_sampling_ext) ''MODEL'' = PStr ''crab: _PARO_K: 1_PARC_''"
    by (simp add: nested_sampling_ext_def header_get_def)
  have b: "e_parse_model toy_env (escape_back_yaml_from_fits ''crab: _PARO_K: 1_PARC_'') = Inr crab"
    by (simp add: nested_model toy_env_def)
  have c: "gather_statistics toy_env (header nested_sampling_ext)
        (map fst (header nested_sampling_ext)) [] = Inr []"
    by (simp add: nested_sampling_ext_def)
  have t: "header_get (header nested_sampling_ext) ''RESUTYPE'' = PStr ''Nested''"
    by (simp add: nested_sampling_ext_def header_get_def)
  have d: "header_get (header nested_sampling_ext) ''RESUTYPE'' \<noteq> PStr ''MLE''"
    and e: "header_get (header nested_sampling_ext) ''RESUTYPE'' \<noteq> PStr ''Bayesian''"
    by (simp_all add: t)
  note f = unknown_analysis_type [OF a b c d e]
  have "load_analysis_results toy_env [primary_hdu, nested_sampling_ext] = Inr (Single None, [])"
    using f
    by (simp add: load_analysis_results_def getitem_name_ver_def hdu_name_def hdu_ver_def
        header_get_def primary_hdu_def)
      (simp add: nested_sampling_ext_def)
  with a b c t f show ?thesis by simp
qed

lemma load_all_Nil: "load_all e f [] = Inr ([], [])"
  by simp

text \<open>
  Claim C10. A container without an \<^verbatim>\<open>ANALYSIS_RESULTS\<close> extension takes the path of the
  sets, with zero results: without a \<^verbatim>\<open>SEQUENCE\<close> extension the load fails with the
  KeyError of that lookup, and whenever the load succeeds it yields a set of length
  zero; there is no error of its own for the absence of results.
\<close>

theorem no_results_extension:
  assumes "filter (\<lambda>x. x = ''ANALYSIS_RESULTS'') (map hdu_name f) = []"
  shows "load_analysis_results e f
       = (case load_set_of_results e f 0 of
            Inl err \<Rightarrow> Inl err | Inr (s, w) \<Rightarrow> Inr (ResultSet s, w))
     \<and> (filter (\<lambda>u. hdu_name u = ''SEQUENCE'') f = [] \<longrightarrow>
          load_analysis_results e f = Inl (KeyError ''SEQUENCE''))
     \<and> (\<forall>l w. load_analysis_results e f = Inr (l, w) \<longrightarrow>
          (\<exists>s. l = ResultSet s \<and> set_results s = [] \<and> w = []))"
proof -
  have 1: "load_analysis_results e f
       = (case load_set_of_results e f 0 of
            Inl err \<Rightarrow> Inl err | Inr (s, w) \<Rightarrow> Inr (ResultSet s, w))"
    using assms by (simp add: load_analysis_results_def)
  have 2: "load_set_of_results e f 0 = Inl (KeyError ''SEQUENCE'')"
    if "filter (\<lambda>u. hdu_name u = ''SEQUENCE'') f = []"
    using that by (simp add: load_set_of_results_def getitem_name_def)
  have 3: "set_results s = [] \<and> w = []" if "load_set_of_results e f 0 = Inr (s, w)" for s w
    using that
    by (auto simp: load_set_of_results_def characterize_sequence_def
        split: sum.splits option.splits)
  show ?thesis
    unfolding 1 using 2 3 by (auto split: sum.splits)
qed

theorem no_results_extension_witness:
  "filter (\<lambda>x. x = ''ANALYSIS_RESULTS'') (map hdu_name [primary_hdu]) = []
   \<and> filter (\<lambda>u. hdu_name u = ''SEQUENCE'') [primary_hdu] = []
   \<and> load_analysis_results toy_env [primary_hdu] = Inl (KeyError ''SEQUENCE'')
   \<and> filter (\<lambda>x. x = ''ANALYSIS_RESULTS'') (map hdu_name [primary_hdu, empty_sequence_ext]) = []
   \<and> load_analysis_results toy_env [primary_hdu, empty_sequence_ext]
       = Inr (ResultSet \<lparr>set_results = [], sequence = Some (''unspecified'', [(''VALUE'', [])])\<rparr>, [])"
proof -
  have a: "filter (\<lambda>x. x = ''ANALYSIS_RESULTS'') (map hdu_name [primary_hdu]) = []"
    by (simp add: primary_hdu_def hdu_name_def header_get_def)
  have b: "filter (\<lambda>u. hdu_name u = ''SEQUENCE'') [primary_hdu] = []"
    by (simp add: primary_hdu_def hdu_name_def header_get_def)
  have c: "filter (\<lambda>x. x = ''ANALYSIS_RESULTS'') (map hdu_name [primary_hdu, empty_sequence_ext]) = []"
    by (simp add: primary_hdu_def empty_sequence_ext_def hdu_name_def header_get_def)
  have d: "load_set_of_results toy_env [primary_hdu, empty_sequence_ext] 0
      = Inr (\<lparr>set_results = [], sequence = Some (''unspecified'', [(''VALUE'', [])])\<rparr>, [])"
    by (simp add: load_set_of_results_def getitem_name_def primary_hdu_def empty_sequence_ext_def
        hdu_name_def header_get_def characterize_sequence_def py_str_def)
  from no_results_extension [OF a, of toy_env] b
  have e: "load_analysis_results toy_env [primary_hdu] = Inl (KeyError ''SEQUENCE'')"
    by blast
  from no_results_extension [OF c, of toy_env] d
  have f: "load_analysis_results toy_env [primary_hdu, empty_sequence_ext]
       = Inr (ResultSet \<lparr>set_results = [], sequence = Some (''unspecified'', [(''VALUE'', [])])\<rparr>, [])"
    by simp
  from a b c e f show ?thesis by (intro conjI)
qed


section \<open>The writer\<close>

subsection \<open>\<^verbatim>\<open>FITSExtension.__init__\<close>\<close>

text \<open>The loop over the columns.\<close>

fun make_columns :: "numpy \<Rightarrow> (string \<times> pyvalue list) list \<Rightarrow> error + fits_column list" where
  "make_columns np [] = Inr []"
| "make_columns np ((column_name, column_data) # rest) =
     (case column_format np column_name column_data of
        Inl err \<Rightarrow> Inl err
      | Inr (fmt, units) \<Rightarrow>
          (case make_columns np rest of
             Inl err \<Rightarrow> Inl err
           | Inr fits_columns \<Rightarrow>
               Inr (\<lparr>col_name = column_name, col_format = fmt, col_unit = units,
                     col_array = column_data\<rparr> # fits_columns)))"

text \<open>
  \<^verbatim>\<open>self._hdu.set('CREATOR', ...)\<close>, the last statement of the constructor (line 183 of
  \<^verbatim>\<open>fits_file.py\<close>): \<^verbatim>\<open>self._hdu\<close> is the table HDU that \<^verbatim>\<open>BinTableHDU.from_columns\<close>
  returned. It is the header of an HDU that has a method \<^verbatim>\<open>set\<close>; the HDU has no
  attribute of that name, and the call raises AttributeError.
\<close>

definition BinTableHDU_set :: "hdu \<Rightarrow> string \<Rightarrow> pyobj \<Rightarrow> error + hdu" where
  "BinTableHDU_set u keyword v = Inl AttributeError"

text \<open>The constructor: the columns, the HDU with its header, and the call of \<^verbatim>\<open>set\<close>.\<close>

definition FITSExtension_init :: "env \<Rightarrow> (string \<times> pyvalue list) list \<Rightarrow> (string \<times> pyobj) list
    \<Rightarrow> error + hdu" where
  "FITSExtension_init e data_tuple header_tuple =
     (case make_columns (e_numpy e) data_tuple of
        Inl err \<Rightarrow> Inl err
      | Inr fits_columns \<Rightarrow>
          BinTableHDU_set \<lparr>header = header_tuple, columns = fits_columns\<rparr> ''CREATOR''
            (PStr (''3ML v.'' @ e_version e)))"

subsection \<open>The extensions \<^verbatim>\<open>SEQUENCE\<close> and \<^verbatim>\<open>ANALYSIS_RESULTS\<close>\<close>

definition SEQUENCE_HEADER_KEYWORDS :: "(string \<times> pyobj) list" where
  "SEQUENCE_HEADER_KEYWORDS =
     [(''EXTNAME'', PStr ''SEQUENCE''), (''ORIGIN'', PStr ''3ML''), (''SEQ_TYPE'', PNone)]"

definition SEQUENCE_init :: "env \<Rightarrow> string \<Rightarrow> (string \<times> pyvalue list) list \<Rightarrow> error + hdu" where
  "SEQUENCE_init e n data_tuple =
     (case FITSExtension_init e data_tuple SEQUENCE_HEADER_KEYWORDS of
        Inl err \<Rightarrow> Inl err
      | Inr u \<Rightarrow> Inr (u\<lparr>header := header_set (header u) ''SEQ_TYPE'' (PStr n)\<rparr>))"

definition ANALYSIS_RESULTS_HEADER_KEYWORDS :: "(string \<times> pyobj) list" where
  "ANALYSIS_RESULTS_HEADER_KEYWORDS =
     [(''EXTNAME'', PStr ''ANALYSIS_RESULTS''), (''MODEL'', PNone), (''ORIGIN'', PStr ''3ML''),
      (''RESUTYPE'', PNone)]"

text \<open>
  \<^verbatim>\<open>for i, (plugin_instance_name, stat_value) in enumerate(stat_series.iteritems())\<close>:
  the keywords \<^verbatim>\<open>STAT%i\<close> and \<^verbatim>\<open>PN%i\<close>.
\<close>

fun set_statistics :: "(string \<times> pyobj) list \<Rightarrow> (nat \<times> pyobj \<times> pyfloat) list
    \<Rightarrow> (string \<times> pyobj) list" where
  "set_statistics h [] = h"
| "set_statistics h ((i, plugin_instance_name, stat_value) # rest) =
     set_statistics
       (header_set (header_set h (''STAT'' @ str_of_nat i) (PFloat stat_value))
          (''PN'' @ str_of_nat i) plugin_instance_name)
       rest"

text \<open>The covariance matrix and the samples that go into the table, or a failed assertion.\<close>

definition matrices_to_write :: "results \<Rightarrow> error + (ndarray \<times> ndarray)" where
  "matrices_to_write r =
     (let n_parameters = length (free_parameters (optimized_model (base r)))
      in if analysis_type (base r) = ''MLE'' then
           (case r of
              MLEResults b covariance_matrix \<Rightarrow>
                if shape covariance_matrix \<noteq> [n_parameters, n_parameters]
                then Inl (AssertionError
                       (MatrixWrongShape n_parameters n_parameters (shape covariance_matrix)))
                else Inr (covariance_matrix, zeros1 n_parameters)
            | BayesianResults b \<Rightarrow> Inl (AssertionError NoMessage))
         else
           (case r of
              BayesianResults b \<Rightarrow> Inr (zeros1 n_parameters, samples_transposed b)
            | MLEResults b covariance_matrix \<Rightarrow> Inl (AssertionError NoMessage)))"

definition ANALYSIS_RESULTS_init :: "env \<Rightarrow> results \<Rightarrow> error + hdu" where
  "ANALYSIS_RESULTS_init e r =
     (case matrices_to_write r of
        Inl err \<Rightarrow> Inl err
      | Inr (covariance_matrix, smp) \<Rightarrow>
          (let yaml_model_serialization =
                 escape_yaml_for_fits (e_dump_model e (optimized_model (base r)))
           in case get_data_frame (e_quantile e) (base r) ''equal tail'' default_cl of
                Inl err \<Rightarrow> Inl err
              | Inr data_frame \<Rightarrow>
                  (case FITSExtension_init e
                          [(''NAME'', map (PyStr \<circ> path)
                                       (free_parameters (optimized_model (base r)))),
                           (''VALUE'', map (Scalar Float64 \<circ> df_value) data_frame),
                           (''NEGATIVE_ERROR'', map (Scalar Float64 \<circ> df_negative_error) data_frame),
                           (''POSITIVE_ERROR'', map (Scalar Float64 \<circ> df_positive_error) data_frame),
                           (''ERROR'', map (Scalar Float64 \<circ> df_error) data_frame),
                           (''UNIT'', map (PyStr \<circ> df_unit) data_frame),
                           (''COVARIANCE'', array_rows covariance_matrix),
                           (''SAMPLES'', array_rows smp)]
                          ANALYSIS_RESULTS_HEADER_KEYWORDS of
                     Inl err \<Rightarrow> Inl err
                   | Inr u \<Rightarrow>
                       Inr (u\<lparr>header :=
                              set_statistics
                                (header_set
                                   (header_set (header u) ''MODEL'' (PStr yaml_model_serialization))
                                   ''RESUTYPE'' (PStr (analysis_type (base r))))
                                (enumerate 0 (optimal_statistic_values (base r)))\<rparr>))))"

subsection \<open>\<^verbatim>\<open>AnalysisResultsFITS\<close> and \<^verbatim>\<open>write_to\<close>\<close>

text \<open>\<^verbatim>\<open>map(ANALYSIS_RESULTS, analysis_results)\<close>\<close>

fun results_extensions :: "env \<Rightarrow> results list \<Rightarrow> error + hdu list" where
  "results_extensions e [] = Inr []"
| "results_extensions e (r # rs) =
     (case ANALYSIS_RESULTS_init e r of
        Inl err \<Rightarrow> Inl err
      | Inr u \<Rightarrow>
          (case results_extensions e rs of
             Inl err \<Rightarrow> Inl err
           | Inr us \<Rightarrow> Inr (u # us)))"

definition PrimaryHDU :: "env \<Rightarrow> hdu" where
  "PrimaryHDU e = \<lparr>header = [(''DATE'', PStr (e_now e)), (''ORIGIN'', PStr ''3ML'')], columns = []\<rparr>"

definition AnalysisResultsFITS_init :: "env \<Rightarrow> results list
    \<Rightarrow> (string \<times> (string \<times> pyvalue list) list) option \<Rightarrow> error + hdu list" where
  "AnalysisResultsFITS_init e analysis_results kwargs =
     (case (case kwargs of
              None \<Rightarrow> Inr []
            | Some (sequence_name, sequence_tuple) \<Rightarrow>
                (case SEQUENCE_init e sequence_name sequence_tuple of
                   Inl err \<Rightarrow> Inl err | Inr sequence_ext \<Rightarrow> Inr [sequence_ext])) of
        Inl err \<Rightarrow> Inl err
      | Inr extensions \<Rightarrow>
          (case results_extensions e analysis_results of
             Inl err \<Rightarrow> Inl err
           | Inr results_ext \<Rightarrow>
               Inr (PrimaryHDU e # extensions
                    @ map (\<lambda>(i, res_ext).
                             res_ext\<lparr>header := header_set (header res_ext) ''EXTVER''
                                                  (PInt (int i + 1))\<rparr>)
                          (enumerate 0 results_ext))))"

text \<open>
  \<^verbatim>\<open>_AnalysisResults.write_to\<close>: the file that is written. The path, and the refusal
  to overwrite a file, belong to the FITS library.
\<close>

definition write_to :: "env \<Rightarrow> results \<Rightarrow> error + hdu list" where
  "write_to e self = AnalysisResultsFITS_init e [self] None"


subsection \<open>The columns of the extension of a result\<close>

text \<open>
  What is needed of numpy on 64-bit floats: the type of the array of one, and that a list
  of them goes into an array of that type.
\<close>

definition float64_arrays :: "numpy \<Rightarrow> bool" where
  "float64_arrays np =
     ((\<forall>v. array_dtype np (Scalar Float64 v) = Some Float64)
      \<and> (\<forall>vs. can_coerce np (map (Scalar Float64) vs) Float64))"

lemma column_format_strings:
  "ss \<noteq> [] \<Longrightarrow> \<exists>x. column_format np n (map PyStr ss) = Inr x"
  by (cases ss) (simp_all only: string_column_width, simp_all)

lemma column_format_floats:
  "vs \<noteq> [] \<Longrightarrow> \<exists>x. column_format np n (map (Scalar Float64) vs) = Inr x"
  by (cases vs) (simp_all add: column_format_def lookup_code_def)

lemma column_format_rows:
  assumes "float64_arrays np" "rs \<noteq> []" "hd rs \<noteq> []"
  shows "\<exists>x. column_format np n (array_rows (Arr2 c rs)) = Inr x"
proof -
  from assms(2,3) obtain v r rest where rs: "rs = (v # r) # rest"
    by (cases rs; cases "hd rs") auto
  from assms(1) have a: "array_dtype np (Scalar Float64 v) = Some Float64"
    and b: "can_coerce np (map (Scalar Float64) (v # r)) Float64"
    unfolding float64_arrays_def by blast+
  have "array_column_format np n (map (Scalar Float64) (v # r))
      = Inr (str_of_nat (length (v # r)) @ ''D'')"
    using a b by (simp add: array_column_format_def lookup_code_def)
  then show ?thesis
    by (simp add: rs column_format_def)
qed

lemma make_columns_ok:
  "list_all (\<lambda>(n, d). \<exists>x. column_format np n d = Inr x) dt \<Longrightarrow>
   \<exists>cols. make_columns np dt = Inr cols"
  by (induction dt) auto

subsection \<open>The data frame of a constructed result\<close>

lemma index_of_less: "k \<in> set xs \<Longrightarrow> index_of xs k < length xs"
  by (induction xs) auto

lemma get_variates_ok:
  assumes "samples_transposed self = Arr2 c rs"
    and "length rs = length (free_parameters (optimized_model self))"
    and "length (vals self) = length (free_parameters (optimized_model self))"
    and "p \<in> set (free_parameters (optimized_model self))"
  shows "\<exists>q. get_variates self (path p) = Inr q"
proof -
  let ?keys = "map path (free_parameters (optimized_model self))"
  have 1: "path p \<in> set ?keys" using assms(4) by simp
  from index_of_less [OF 1] have 2: "index_of ?keys (path p) < length (vals self)"
    "index_of ?keys (path p) < length rs"
    using assms(2,3) by simp_all
  show ?thesis
    unfolding get_variates_def Let_def using 1 2 by (simp add: assms(1))
qed

lemma data_frame_rows_ok:
  assumes "\<And>p. p \<in> set ps \<Longrightarrow> \<exists>q. get_variates self (path p) = Inr q"
    and "0 < cl" "cl < 1"
  shows "\<exists>df. data_frame_rows (equal_tail_confidence_interval quantile) self cl ps = Inr df
           \<and> length df = length ps"
  using assms(1)
proof (induction ps)
  case Nil
  then show ?case by simp
next
  case (Cons p ps)
  from Cons.prems [of p] obtain q where q: "get_variates self (path p) = Inr q" by auto
  from Cons.IH Cons.prems obtain df
    where df: "data_frame_rows (equal_tail_confidence_interval quantile) self cl ps = Inr df"
      "length df = length ps"
    by auto
  have "\<exists>x. equal_tail_confidence_interval quantile q cl = Inr x"
    using assms(2,3) by (simp add: equal_tail_confidence_interval_def)
  then obtain lo hi where "equal_tail_confidence_interval quantile q cl = Inr (lo, hi)"
    by auto
  then show ?case by (simp add: q df)
qed

lemma get_data_frame_ok:
  assumes "samples_transposed self = Arr2 c rs"
    and "length rs = length (free_parameters (optimized_model self))"
    and "length (vals self) = length (free_parameters (optimized_model self))"
  shows "\<exists>df. get_data_frame quantile self ''equal tail'' default_cl = Inr df
           \<and> length df = length (free_parameters (optimized_model self))"
proof -
  have "\<exists>df. data_frame_rows (equal_tail_confidence_interval quantile) self default_cl
           (free_parameters (optimized_model self)) = Inr df
           \<and> length df = length (free_parameters (optimized_model self))"
    by (rule data_frame_rows_ok) (auto intro: get_variates_ok [OF assms] simp: default_cl_def)
  then show ?thesis by (simp add: get_data_frame_def)
qed

subsection \<open>\<^verbatim>\<open>write_to\<close> raises\<close>

lemma write_to_never_returns: "\<exists>err. write_to e r = Inl err"
proof -
  have "\<exists>err. FITSExtension_init e dt h = Inl err" for dt h
    by (cases "make_columns (e_numpy e) dt")
       (simp_all add: FITSExtension_init_def BinTableHDU_set_def)
  then have "\<exists>err. ANALYSIS_RESULTS_init e r = Inl err"
    unfolding ANALYSIS_RESULTS_init_def Let_def
    by (auto split: sum.splits prod.splits simp del: array_rows.simps) (metis sum.distinct(1))
  then show ?thesis
    by (auto simp: write_to_def AnalysisResultsFITS_init_def)
qed

lemma write_to_AttributeError:
  assumes "matrices_to_write r = Inr (cm, smp)"
    and "\<exists>x. column_format (e_numpy e) ''COVARIANCE'' (array_rows cm) = Inr x"
    and "\<exists>x. column_format (e_numpy e) ''SAMPLES'' (array_rows smp) = Inr x"
    and "free_parameters (optimized_model (base r)) \<noteq> []"
    and "samples_transposed (base r) = Arr2 c rs"
    and "length rs = length (free_parameters (optimized_model (base r)))"
    and "length (vals (base r)) = length (free_parameters (optimized_model (base r)))"
  shows "write_to e r = Inl AttributeError"
proof -
  let ?ps = "free_parameters (optimized_model (base r))"
  from get_data_frame_ok [OF assms(5,6,7), of "e_quantile e"] obtain df
    where df: "get_data_frame (e_quantile e) (base r) ''equal tail'' default_cl = Inr df"
      and len: "length df = length ?ps"
    by blast
  from len assms(4) have ne: "df \<noteq> []" by auto
  let ?dt = "[(''NAME'', map (PyStr \<circ> path) ?ps),
              (''VALUE'', map (Scalar Float64 \<circ> df_value) df),
              (''NEGATIVE_ERROR'', map (Scalar Float64 \<circ> df_negative_error) df),
              (''POSITIVE_ERROR'', map (Scalar Float64 \<circ> df_positive_error) df),
              (''ERROR'', map (Scalar Float64 \<circ> df_error) df),
              (''UNIT'', map (PyStr \<circ> df_unit) df),
              (''COVARIANCE'', array_rows cm),
              (''SAMPLES'', array_rows smp)]"
  have strings: "\<exists>x. column_format (e_numpy e) n (map (PyStr \<circ> f) xs) = Inr x"
    if "xs \<noteq> []" for n and f :: "'a \<Rightarrow> string" and xs
    using column_format_strings [of "map f xs" "e_numpy e" n] that by simp
  have floats: "\<exists>x. column_format (e_numpy e) n (map (Scalar Float64 \<circ> f) xs) = Inr x"
    if "xs \<noteq> []" for n and f :: "'a \<Rightarrow> pyfloat" and xs
    using column_format_floats [of "map f xs" "e_numpy e" n] that by simp
  have "list_all (\<lambda>(n, d). \<exists>x. column_format (e_numpy e) n d = Inr x) ?dt"
    using assms(2,3) strings [OF assms(4)] strings [OF ne] floats [OF ne]
    by (simp del: array_rows.simps)
  from make_columns_ok [OF this] obtain cols
    where cols: "make_columns (e_numpy e) ?dt = Inr cols" by blast
  have ext: "ANALYSIS_RESULTS_init e r = Inl AttributeError"
    unfolding ANALYSIS_RESULTS_init_def FITSExtension_init_def BinTableHDU_set_def Let_def
    by (simp only: assms(1) df cols sum.case prod.case)
  show ?thesis
    unfolding write_to_def AnalysisResultsFITS_init_def
    by (simp add: ext)
qed

lemma MLEResults_init_drawn:
  assumes "sampler_ok multivariate_normal"
    and "shape cov = [length (free_parameters m), length (free_parameters m)]"
    and "all_isfinite cov"
  shows "\<exists>rows w. MLEResults_init multivariate_normal m cov lv n =
      Inr (MLEResults
          \<lparr>n_free_parameters = length (free_parameters m), optimized_model = m,
            samples_transposed = T (Arr2 (length (free_parameters m)) rows),
            optimal_statistic_values = lv, vals = map val (free_parameters m),
            analysis_type = ''MLE''\<rparr> cov, w)"
proof -
  let ?rs = "multivariate_normal (map val (free_parameters m)) cov n"
  from assms(1) have "list_all (\<lambda>r. length r = length (map val (free_parameters m))) ?rs"
    unfolding sampler_ok_def by blast
  then have rows: "list_all (\<lambda>r. length r = length (free_parameters m)) ?rs"
    by simp
  have "MLEResults_init multivariate_normal m cov lv n
      = reject_samples m (length (free_parameters m)) ?rs cov lv"
    using assms(2,3) by (simp add: MLEResults_init_def Let_def)
  also note reject_samples_eq [OF rows, of cov lv]
  finally show ?thesis by blast
qed

text \<open>
  Claim C1, on the code. Take a numpy that reads 64-bit floats, a sampler that returns
  rows of the length of the mean, and a model with at least one free parameter. An MLE
  result built from a well-formed matrix of shape \<open>(k, k)\<close> with finite entries, and a
  Bayesian result built from a well-formed matrix of at least one sample, are
  constructed, and \<^verbatim>\<open>write_to\<close> raises AttributeError on each of them: the columns of the
  extension are built, and the constructor of the extension then calls
  \<^verbatim>\<open>self._hdu.set\<close>. On no record at all does \<^verbatim>\<open>write_to\<close> return, so no file is there
  to be read back. The claim asks for a file that holds the record.
\<close>

theorem write_to_raises:
  assumes "float64_arrays (e_numpy e)"
    and "sampler_ok (e_multivariate_normal e)"
    and "free_parameters m \<noteq> []"
  shows "(shape cov = [length (free_parameters m), length (free_parameters m)]
          \<and> all_isfinite cov \<and> well_formed cov \<longrightarrow>
          (\<exists>b w.
             MLEResults_init (e_multivariate_normal e) m cov stats n = Inr (MLEResults b cov, w)
             \<and> write_to e (MLEResults b cov) = Inl AttributeError))
       \<and> (shape samples = [n_samples, length (free_parameters m)]
          \<and> 0 < n_samples \<and> well_formed samples \<longrightarrow>
          (\<exists>b.
             BayesianResults_init m samples stats = Inr (BayesianResults b)
             \<and> write_to e (BayesianResults b) = Inl AttributeError))
       \<and> (\<exists>err. write_to e r = Inl err)"
proof (intro conjI impI)
  let ?k = "length (free_parameters m)"
  assume "shape cov = [?k, ?k] \<and> all_isfinite cov \<and> well_formed cov"
  then have c: "shape cov = [?k, ?k]" "all_isfinite cov" "well_formed cov"
    by blast+
  from MLEResults_init_drawn [OF assms(2) c(1,2), of stats n] obtain rows w
    where init: "MLEResults_init (e_multivariate_normal e) m cov stats n =
      Inr (MLEResults
          \<lparr>n_free_parameters = ?k, optimized_model = m,
            samples_transposed = T (Arr2 ?k rows),
            optimal_statistic_values = stats, vals = map val (free_parameters m),
            analysis_type = ''MLE''\<rparr> cov, w)"
    by blast
  let ?b = "\<lparr>n_free_parameters = ?k, optimized_model = m,
            samples_transposed = T (Arr2 ?k rows),
            optimal_statistic_values = stats, vals = map val (free_parameters m),
            analysis_type = ''MLE''\<rparr>"
  let ?r = "MLEResults ?b cov"
  from c(1) obtain rs where cov: "cov = Arr2 ?k rs" and len: "length rs = ?k"
    by (cases cov) simp_all
  from assms(3) len have ne: "rs \<noteq> []" by auto
  from c(3) ne len assms(3) have hd: "hd rs \<noteq> []"
    by (cases rs) (auto simp: cov)
  have m2w: "matrices_to_write ?r = Inr (cov, zeros1 ?k)"
    using c(1) by (simp add: matrices_to_write_def)
  have c1: "\<exists>x. column_format (e_numpy e) ''COVARIANCE'' (array_rows cov) = Inr x"
    unfolding cov by (rule column_format_rows [OF assms(1) ne hd])
  have c2: "\<exists>x. column_format (e_numpy e) ''SAMPLES'' (array_rows (zeros1 ?k)) = Inr x"
    using column_format_floats [of "replicate ?k (Fin 0)" "e_numpy e" "''SAMPLES''"] assms(3)
    by (simp add: zeros1_def)
  have "write_to e ?r = Inl AttributeError"
    by (rule write_to_AttributeError [OF m2w c1 c2, where c = "length rows"
          and rs = "map (\<lambda>j. map (\<lambda>r. r ! j) rows) [0..<?k]"])
       (simp_all add: assms(3))
  with init show "\<exists>b w.
      MLEResults_init (e_multivariate_normal e) m cov stats n = Inr (MLEResults b cov, w)
      \<and> write_to e (MLEResults b cov) = Inl AttributeError"
    by blast
next
  let ?k = "length (free_parameters m)"
  assume "shape samples = [n_samples, ?k] \<and> 0 < n_samples \<and> well_formed samples"
  then have s: "shape samples = [n_samples, ?k]" "0 < n_samples" "well_formed samples"
    by blast+
  from s(1) obtain rows where samples: "samples = Arr2 ?k rows"
    and len: "length rows = n_samples"
    by (cases samples) simp_all
  let ?cols = "map (\<lambda>j. map (\<lambda>r. r ! j) rows) [0..<?k]"
  have t: "T samples = Arr2 n_samples ?cols"
    by (simp add: samples len)
  let ?b = "\<lparr>n_free_parameters = ?k, optimized_model = m,
            samples_transposed = T samples,
            optimal_statistic_values = stats, vals = map val (free_parameters m),
            analysis_type = ''Bayesian''\<rparr>"
  let ?r = "BayesianResults ?b"
  have init: "BayesianResults_init m samples stats = Inr ?r"
    by (simp add: BayesianResults_init_def samples AnalysisResults_init_Arr2 del: T.simps)
  have ne: "?cols \<noteq> []" using assms(3) by simp
  have hd: "hd ?cols \<noteq> []"
    using assms(3) s(2) len by (auto simp: hd_map upt_conv_Cons)
  have m2w: "matrices_to_write ?r = Inr (zeros1 ?k, T samples)"
    by (simp add: matrices_to_write_def del: T.simps)
  have c1: "\<exists>x. column_format (e_numpy e) ''COVARIANCE'' (array_rows (zeros1 ?k)) = Inr x"
    using column_format_floats [of "replicate ?k (Fin 0)" "e_numpy e" "''COVARIANCE''"] assms(3)
    by (simp add: zeros1_def)
  have c2: "\<exists>x. column_format (e_numpy e) ''SAMPLES'' (array_rows (T samples)) = Inr x"
    unfolding t by (rule column_format_rows [OF assms(1) ne hd])
  have "write_to e ?r = Inl AttributeError"
    by (rule write_to_AttributeError [OF m2w c1 c2, where c = n_samples and rs = ?cols])
       (simp_all add: assms(3) t)
  with init show "\<exists>b.
      BayesianResults_init m samples stats = Inr (BayesianResults b)
      \<and> write_to e (BayesianResults b) = Inl AttributeError"
    by blast
next
  show "\<exists>err. write_to e r = Inl err" by (rule write_to_never_returns)
qed

text \<open>A power law with two free parameters.\<close>

definition powerlaw :: model where
  "powerlaw = \<lparr>free_parameters =
     [\<lparr>path = ''source.spectrum.main.Powerlaw.K'', val = Fin 1, unit = ''1 / (cm2 keV s)'',
       min_value = Some (Fin 0), max_value = None\<rparr>,
      \<lparr>path = ''source.spectrum.main.Powerlaw.index'', val = Fin (- 2), unit = [],
       min_value = Some (Fin (- 10)), max_value = Some (Fin 10)\<rparr>]\<rparr>"

lemma float64_arrays_plain_numpy: "float64_arrays plain_numpy"
  by (simp add: float64_arrays_def plain_numpy_def list_all_iff)

theorem write_to_raises_witness:
  "float64_arrays (e_numpy toy_env)
   \<and> sampler_ok (e_multivariate_normal toy_env)
   \<and> free_parameters powerlaw \<noteq> []
   \<and> shape (Arr2 2 [[Fin 4, Fin 1], [Fin 1, Fin 9]])
       = [length (free_parameters powerlaw), length (free_parameters powerlaw)]
   \<and> all_isfinite (Arr2 2 [[Fin 4, Fin 1], [Fin 1, Fin 9]])
   \<and> well_formed (Arr2 2 [[Fin 4, Fin 1], [Fin 1, Fin 9]])
   \<and> (\<exists>b w.
        MLEResults_init (e_multivariate_normal toy_env) powerlaw
            (Arr2 2 [[Fin 4, Fin 1], [Fin 1, Fin 9]]) [(PStr ''data'', Fin 12)] 4
          = Inr (MLEResults b (Arr2 2 [[Fin 4, Fin 1], [Fin 1, Fin 9]]), w)
        \<and> write_to toy_env (MLEResults b (Arr2 2 [[Fin 4, Fin 1], [Fin 1, Fin 9]]))
            = Inl AttributeError)
   \<and> shape (Arr2 2 [[Fin 1, Fin (- 2)], [Fin 2, Fin (- 3)], [Fin 3, Fin (- 1)]])
       = [3, length (free_parameters powerlaw)]
   \<and> (0 :: nat) < 3
   \<and> well_formed (Arr2 2 [[Fin 1, Fin (- 2)], [Fin 2, Fin (- 3)], [Fin 3, Fin (- 1)]])
   \<and> (\<exists>b.
        BayesianResults_init powerlaw
            (Arr2 2 [[Fin 1, Fin (- 2)], [Fin 2, Fin (- 3)], [Fin 3, Fin (- 1)]])
            [(PStr ''data'', Fin 12)] = Inr (BayesianResults b)
        \<and> write_to toy_env (BayesianResults b) = Inl AttributeError)"
proof -
  let ?cov = "Arr2 2 [[Fin 4, Fin 1], [Fin 1, Fin 9]]"
  let ?samples = "Arr2 2 [[Fin 1, Fin (- 2)], [Fin 2, Fin (- 3)], [Fin 3, Fin (- 1)]]"
  let ?stats = "[(PStr ''data'', Fin 12)]"
  have e: "float64_arrays (e_numpy toy_env)" "sampler_ok (e_multivariate_normal toy_env)"
    "free_parameters powerlaw \<noteq> []"
    by (simp_all add: toy_env_def float64_arrays_plain_numpy sampler_ok_shifted_draws
        powerlaw_def)
  have c: "shape ?cov = [length (free_parameters powerlaw), length (free_parameters powerlaw)]"
    "all_isfinite ?cov" "well_formed ?cov"
    by (simp_all add: powerlaw_def isfinite_def)
  have s: "shape ?samples = [3, length (free_parameters powerlaw)]" "(0 :: nat) < 3"
    "well_formed ?samples"
    by (simp_all add: powerlaw_def)
  from write_to_raises [OF e, of ?cov ?stats 4 ?samples 3] c s
  have "\<exists>b w.
        MLEResults_init (e_multivariate_normal toy_env) powerlaw ?cov ?stats 4
          = Inr (MLEResults b ?cov, w)
        \<and> write_to toy_env (MLEResults b ?cov) = Inl AttributeError"
    and "\<exists>b.
        BayesianResults_init powerlaw ?samples ?stats = Inr (BayesianResults b)
        \<and> write_to toy_env (BayesianResults b) = Inl AttributeError"
    by blast+
  with e c s show ?thesis by (intro conjI)
qed

end
